theory Spec2Isabelle
  imports Complex_Main
begin

section \<open>Numbers, vectors and errors\<close>

text \<open>
  JavaScript numbers are modelled as the reals: the development is about the control
  flow and the formulas of the kinematics engine, not about rounding. A call on
  \<open>null\<close> (a disposed mesh) raises a TypeError in the source; it is the value
  \<open>Inl TypeError\<close> here. A division and a square root of the source agree with
  HOL's total functions for a nonzero divisor and a non-negative argument; no statement
  below depends on their values elsewhere.
\<close>

datatype error = TypeError

text \<open>\<open>THREE.Vector3\<close>: three numeric components \<open>x\<close>, \<open>y\<close>, \<open>z\<close>.\<close>

record Vector3 =
  vec_x :: real
  vec_y :: real
  vec_z :: real

definition Vec :: "real \<Rightarrow> real \<Rightarrow> real \<Rightarrow> Vector3" where
  "Vec a b c = \<lparr>vec_x = a, vec_y = b, vec_z = c\<rparr>"

text \<open>\<open>Vector3.length()\<close>, \<open>add\<close>, \<open>sub\<close> and \<open>multiplyScalar\<close>.\<close>

definition vec_length :: "Vector3 \<Rightarrow> real" where
  "vec_length v = sqrt (vec_x v * vec_x v + vec_y v * vec_y v + vec_z v * vec_z v)"

definition vec_add :: "Vector3 \<Rightarrow> Vector3 \<Rightarrow> Vector3" where
  "vec_add a b = Vec (vec_x a + vec_x b) (vec_y a + vec_y b) (vec_z a + vec_z b)"

definition vec_sub :: "Vector3 \<Rightarrow> Vector3 \<Rightarrow> Vector3" where
  "vec_sub a b = Vec (vec_x a - vec_x b) (vec_y a - vec_y b) (vec_z a - vec_z b)"

definition multiplyScalar :: "Vector3 \<Rightarrow> real \<Rightarrow> Vector3" where
  "multiplyScalar a s = Vec (vec_x a * s) (vec_y a * s) (vec_z a * s)"

text \<open>\<open>THREE.MathUtils.degToRad\<close>.\<close>

definition degToRad :: "real \<Rightarrow> real" where
  "degToRad d = d * pi / 180"

text \<open>
  The JavaScript idiom \<open>p || d\<close> on an optional numeric parameter: the default
  \<open>d\<close> is taken when the parameter is absent and also when it is \<open>0\<close>.
\<close>

fun num_or :: "real option \<Rightarrow> real \<Rightarrow> real" where
  "num_or None d = d"
| "num_or (Some v) d = (if v = 0 then d else v)"

fun str_or :: "string option \<Rightarrow> string \<Rightarrow> string" where
  "str_or None d = d"
| "str_or (Some s) d = (if s = [] then d else s)"

section \<open>Projectile\<close>

text \<open>
  The mesh of a projectile: its position and the two material properties the update
  writes. \<open>opacity = None\<close> stands for a material whose \<open>opacity\<close> is
  \<open>undefined\<close>.
\<close>

record ProjectileMesh =
  mesh_position :: Vector3
  opacity :: "real option"
  transparent :: bool

record Projectile =
  initialVelocity :: real
  angle :: real
  gravity :: real
  mass :: real
  launchPosition :: Vector3
  elapsedTime :: real
  isLaunched :: bool
  hasLanded :: bool
  landedTimer :: real
  groundLevel :: real
  vx :: real
  vy :: real
  launchDir :: Vector3
  mesh :: "ProjectileMesh option"
  trajectoryLine :: "Vector3 list option"
  ring :: "Vector3 option"

text \<open>
  The constructor: \<open>params.velocity ?? 20\<close> and its like take the default only for an
  absent parameter. The material is a fresh \<open>MeshStandardMaterial\<close>, whose opacity is
  \<open>1\<close> and which is not transparent; the ring lies just above the ground.
\<close>

record ProjectileParams =
  pp_velocity :: "real option"
  pp_angle :: "real option"
  pp_gravity :: "real option"
  pp_mass :: "real option"

fun nullish :: "real option \<Rightarrow> real \<Rightarrow> real" where
  "nullish None d = d"
| "nullish (Some v) d = v"

definition Projectile_new :: "Vector3 \<Rightarrow> ProjectileParams \<Rightarrow> Projectile" where
  "Projectile_new pos params =
     \<lparr>initialVelocity = nullish (pp_velocity params) 20,
      angle = nullish (pp_angle params) 45,
      gravity = nullish (pp_gravity params) 9.81,
      mass = nullish (pp_mass params) 1,
      launchPosition = pos,
      elapsedTime = 0,
      isLaunched = False,
      hasLanded = False,
      landedTimer = 0,
      groundLevel = 0,
      vx = 0,
      vy = 0,
      launchDir = Vec 1 0 0,
      mesh = Some \<lparr>mesh_position = pos, opacity = Some 1, transparent = False\<rparr>,
      trajectoryLine = None,
      ring = Some (pos\<lparr>vec_y := 0 + 0.01\<rparr>)\<rparr>"

text \<open>\<open>clearTrajectoryLine()\<close>: removes the preview line if there is one.\<close>

definition clearTrajectoryLine :: "Projectile \<Rightarrow> Projectile" where
  "clearTrajectoryLine p = p\<lparr>trajectoryLine := None\<rparr>"

text \<open>\<open>Projectile.launch()\<close>: guarded by \<open>isLaunched\<close>.\<close>

definition Projectile_launch :: "Projectile \<Rightarrow> Projectile" where
  "Projectile_launch p =
     (if Projectile.isLaunched p then p
      else
        let th = degToRad (angle p);
            p1 = p\<lparr>vx := Projectile.initialVelocity p * cos th,
                   vy := Projectile.initialVelocity p * sin th,
                   Projectile.elapsedTime := 0,
                   Projectile.isLaunched := True,
                   hasLanded := False,
                   landedTimer := 0\<rparr>;
            p2 = p1\<lparr>ring := None\<rparr>
        in clearTrajectoryLine p2)"

text \<open>\<open>applyDrag(vx, vy)\<close>: the extensibility hook, the identity in this class.\<close>

definition Projectile_applyDrag :: "real \<Rightarrow> real \<Rightarrow> real \<times> real" where
  "Projectile_applyDrag a b = (a, b)"

text \<open>
  \<open>Projectile.update(dt)\<close>. The returned pair is the status string and the
  projectile after the call.
\<close>

definition Projectile_update :: "real \<Rightarrow> Projectile \<Rightarrow> error + (string \<times> Projectile)" where
  "Projectile_update dt p =
     (if \<not> Projectile.isLaunched p then Inr (''active'', p)
      else if hasLanded p then
        (let p1 = p\<lparr>landedTimer := landedTimer p + dt\<rparr> in
         if landedTimer p1 \<ge> 2 then Inr (''remove'', p1)
         else
           (case Projectile.mesh p1 of
              None \<Rightarrow> Inl TypeError
            | Some m \<Rightarrow>
                (if opacity m \<noteq> None
                 then Inr (''landed'',
                        p1\<lparr>Projectile.mesh :=
                             Some (m\<lparr>transparent := True,
                                      opacity := Some (max 0 (1 - landedTimer p1 / 2))\<rparr>)\<rparr>)
                 else Inr (''landed'', p1))))
      else
        (let p1 = p\<lparr>Projectile.elapsedTime := Projectile.elapsedTime p + dt\<rparr>;
             t = Projectile.elapsedTime p1;
             (adjVx, adjVy) = Projectile_applyDrag (vx p1) (vy p1);
             dx = adjVx * t;
             dy = adjVy * t - 0.5 * Projectile.gravity p1 * t * t;
             newX = vec_x (launchPosition p1) + vec_x (launchDir p1) * dx;
             newZ = vec_z (launchPosition p1) + vec_z (launchDir p1) * dx;
             newY = vec_y (launchPosition p1) + dy;
             landing = (newY \<le> groundLevel p1);
             newY' = (if landing then groundLevel p1 else newY);
             p2 = (if landing then p1\<lparr>hasLanded := True, landedTimer := 0\<rparr> else p1)
         in case Projectile.mesh p2 of
              None \<Rightarrow> Inl TypeError
            | Some m \<Rightarrow>
                Inr (if hasLanded p2 then ''landed'' else ''active'',
                     p2\<lparr>Projectile.mesh := Some (m\<lparr>mesh_position := Vec newX newY' newZ\<rparr>)\<rparr>)))"

text \<open>\<open>Projectile.dispose()\<close>.\<close>

definition Projectile_dispose :: "Projectile \<Rightarrow> Projectile" where
  "Projectile_dispose p = (clearTrajectoryLine p)\<lparr>Projectile.mesh := None, ring := None\<rparr>"

section \<open>MotionObject\<close>

record Stats =
  speed :: real
  displacement :: real
  accelerationMag :: real
  centripetalAccel :: real
  timeToImpact :: real
  impactVelocity :: real
  maxHeight :: "real option"
  range_stat :: "real option"

text \<open>
  The state of one \<open>MotionObject\<close>. \<open>mesh\<close> holds \<open>mesh.position\<close>, and is
  \<open>None\<close> once \<open>dispose()\<close> has set the mesh to \<open>null\<close>; \<open>trailLine\<close> holds
  the points of the trail line in the scene, if there is one.
\<close>

record MotionObject =
  mesh :: "Vector3 option"
  motionType :: string
  position :: Vector3
  velocity :: Vector3
  acceleration :: Vector3
  mass :: real
  initialPosition :: Vector3
  initialVelocity :: Vector3
  elapsedTime :: real
  gravity :: real
  dropHeight :: real
  circularRadius :: real
  angularVelocity :: real
  circularClockwise :: bool
  circularCenter :: Vector3
  frameVelocity :: Vector3
  viewInWorldFrame :: bool
  dragMode :: string
  dragCoefficient :: real
  restitution :: real
  bounceEnabled :: bool
  bounceThreshold :: real
  isStopped :: bool
  isLaunched :: bool
  status :: string
  stats :: Stats
  trailPoints :: "Vector3 list"
  trailLine :: "Vector3 list option"
  maxTrailPoints :: nat

text \<open>The \<open>params\<close> object of the constructor: every field is optional.\<close>

record MotionParams =
  p_mesh :: "Vector3 option"
  p_motionType :: "string option"
  p_vx :: "real option"
  p_vy :: "real option"
  p_vz :: "real option"
  p_ax :: "real option"
  p_ay :: "real option"
  p_az :: "real option"
  p_mass :: "real option"
  p_gravity :: "real option"
  p_dropHeight :: "real option"
  p_circularRadius :: "real option"
  p_angularVelocity :: "real option"
  p_circularClockwise :: "bool option"
  p_frameVx :: "real option"
  p_frameVy :: "real option"
  p_frameVz :: "real option"
  p_dragMode :: "string option"
  p_dragCoefficient :: "real option"
  p_restitution :: "real option"
  p_bounceEnabled :: "bool option"

definition no_params :: MotionParams where
  "no_params = \<lparr>p_mesh = None, p_motionType = None, p_vx = None, p_vy = None, p_vz = None,
     p_ax = None, p_ay = None, p_az = None, p_mass = None, p_gravity = None,
     p_dropHeight = None, p_circularRadius = None, p_angularVelocity = None,
     p_circularClockwise = None, p_frameVx = None, p_frameVy = None, p_frameVz = None,
     p_dragMode = None, p_dragCoefficient = None, p_restitution = None,
     p_bounceEnabled = None\<rparr>"

text \<open>
  The constructor. An externally provided mesh keeps its own position; otherwise a
  sphere is created at \<open>position\<close>.
\<close>

definition MotionObject_new :: "Vector3 \<Rightarrow> MotionParams \<Rightarrow> MotionObject" where
  "MotionObject_new pos params =
     (let v = Vec (num_or (p_vx params) 0) (num_or (p_vy params) 0) (num_or (p_vz params) 0)
      in \<lparr>mesh = (case p_mesh params of Some m \<Rightarrow> Some m | None \<Rightarrow> Some pos),
          motionType = str_or (p_motionType params) ''linear'',
          position = pos,
          velocity = v,
          acceleration =
            Vec (num_or (p_ax params) 0) (num_or (p_ay params) 0) (num_or (p_az params) 0),
          mass = num_or (p_mass params) 1,
          initialPosition = pos,
          initialVelocity = v,
          elapsedTime = 0,
          gravity = num_or (p_gravity params) 9.8,
          dropHeight = num_or (p_dropHeight params) (vec_y pos),
          circularRadius = num_or (p_circularRadius params) 5,
          angularVelocity = num_or (p_angularVelocity params) 1,
          circularClockwise = (case p_circularClockwise params of Some b \<Rightarrow> b | None \<Rightarrow> False),
          circularCenter = pos,
          frameVelocity =
            Vec (num_or (p_frameVx params) 0) (num_or (p_frameVy params) 0)
                (num_or (p_frameVz params) 0),
          viewInWorldFrame = True,
          dragMode = str_or (p_dragMode params) ''none'',
          dragCoefficient = num_or (p_dragCoefficient params) 0.1,
          restitution = num_or (p_restitution params) 0.7,
          bounceEnabled = (case p_bounceEnabled params of Some b \<Rightarrow> b | None \<Rightarrow> True),
          bounceThreshold = 0.1,
          isStopped = False,
          isLaunched = False,
          status = ''idle'',
          stats = \<lparr>speed = 0, displacement = 0, accelerationMag = 0, centripetalAccel = 0,
                    timeToImpact = 0, impactVelocity = 0, maxHeight = None, range_stat = None\<rparr>,
          trailPoints = [],
          trailLine = None,
          maxTrailPoints = 200\<rparr>)"

text \<open>\<open>_clearTrail()\<close>.\<close>

definition clearTrail :: "MotionObject \<Rightarrow> MotionObject" where
  "clearTrail e = e\<lparr>trailLine := None\<rparr>"

text \<open>\<open>launch()\<close>: there is no guard; the three mode overrides follow in source order.\<close>

definition launch :: "MotionObject \<Rightarrow> MotionObject" where
  "launch e =
     (let e1 = e\<lparr>isLaunched := True, status := ''active'', elapsedTime := 0, isStopped := False\<rparr>;
          e2 = e1\<lparr>initialPosition := position e1, initialVelocity := velocity e1\<rparr>;
          e3 = (if motionType e2 = ''freefall''
                then e2\<lparr>acceleration := Vec 0 (- gravity e2) 0,
                        velocity := Vec 0 0 0,
                        initialVelocity := Vec 0 0 0\<rparr>
                else e2);
          e4 = (if motionType e3 = ''projectile''
                then e3\<lparr>acceleration := Vec 0 (- gravity e3) 0\<rparr>
                else e3)
      in if motionType e4 = ''circular''
         then
           (let e5 = e4\<lparr>circularCenter := position e4\<rparr>;
                e6 = e5\<lparr>position := (position e5)\<lparr>vec_x := vec_x (circularCenter e5) + circularRadius e5\<rparr>\<rparr>;
                e7 = e6\<lparr>position := (position e6)\<lparr>vec_z := vec_z (circularCenter e6)\<rparr>\<rparr>
            in e7\<lparr>initialPosition := position e7\<rparr>)
         else e4)"

text \<open>
  \<open>reset()\<close>: copies the snapshot back, then writes \<open>mesh.position\<close>, which raises
  when the mesh has been disposed.
\<close>

definition reset :: "MotionObject \<Rightarrow> error + MotionObject" where
  "reset e =
     (let e1 = e\<lparr>position := initialPosition e\<rparr>;
          e2 = e1\<lparr>velocity := initialVelocity e1\<rparr>
      in case mesh e2 of
           None \<Rightarrow> Inl TypeError
         | Some _ \<Rightarrow>
             Inr (clearTrail
                    (e2\<lparr>mesh := Some (initialPosition e2),
                        elapsedTime := 0,
                        isLaunched := False,
                        isStopped := False,
                        status := ''idle'',
                        trailPoints := []\<rparr>)))"

text \<open>The trigger of \<open>_handleGroundCollision()\<close>.\<close>

definition groundContact :: "MotionObject \<Rightarrow> bool" where
  "groundContact e \<longleftrightarrow> vec_y (position e) \<le> 0 \<and> vec_y (velocity e) < 0"

text \<open>
  \<open>_handleGroundCollision()\<close>. In the bounce branch the re-basing of the snapshot
  follows the threshold test and is not inside it.
\<close>

definition handleGroundCollision :: "MotionObject \<Rightarrow> MotionObject" where
  "handleGroundCollision e =
     (if groundContact e then
        (let e1 = e\<lparr>position := (position e)\<lparr>vec_y := 0\<rparr>\<rparr> in
         if bounceEnabled e1 \<and> restitution e1 > 0 then
           (let e2 = e1\<lparr>velocity := (velocity e1)\<lparr>vec_y := - restitution e1 * vec_y (velocity e1)\<rparr>\<rparr>;
                e3 = (if \<bar>vec_y (velocity e2)\<bar> < bounceThreshold e2
                      then e2\<lparr>velocity := (velocity e2)\<lparr>vec_y := 0\<rparr>,
                              isStopped := True,
                              status := ''stopped''\<rparr>
                      else e2)
            in e3\<lparr>initialPosition := position e3,
                   initialVelocity := velocity e3,
                   elapsedTime := 0\<rparr>)
         else
           e1\<lparr>velocity := (velocity e1)\<lparr>vec_y := 0\<rparr>,
              isStopped := True,
              status := ''stopped''\<rparr>)
      else e)"

text \<open>
  \<open>_applyDrag(dt)\<close>. The mass is never \<open>0\<close> in the source (the constructor and
  \<open>setParams\<close> both replace a zero mass), so the division is by a nonzero number.
\<close>

definition applyDrag :: "real \<Rightarrow> MotionObject \<Rightarrow> MotionObject" where
  "applyDrag dt e =
     (if dragMode e = ''none'' then e
      else
        let k = dragCoefficient e;
            m = mass e;
            spd = vec_length (velocity e)
        in if spd < 0.001 then e
           else if dragMode e = ''linear'' then
             (let e1 = e\<lparr>velocity := (velocity e)\<lparr>vec_x := vec_x (velocity e) - (k * vec_x (velocity e) / m) * dt\<rparr>\<rparr>;
                  e2 = e1\<lparr>velocity := (velocity e1)\<lparr>vec_y := vec_y (velocity e1) - (k * vec_y (velocity e1) / m) * dt\<rparr>\<rparr>
              in e2\<lparr>velocity := (velocity e2)\<lparr>vec_z := vec_z (velocity e2) - (k * vec_z (velocity e2) / m) * dt\<rparr>\<rparr>)
           else if dragMode e = ''quadratic'' then
             (let e1 = e\<lparr>velocity := (velocity e)\<lparr>vec_x := vec_x (velocity e) - (k * spd * vec_x (velocity e) / m) * dt\<rparr>\<rparr>;
                  e2 = e1\<lparr>velocity := (velocity e1)\<lparr>vec_y := vec_y (velocity e1) - (k * spd * vec_y (velocity e1) / m) * dt\<rparr>\<rparr>
              in e2\<lparr>velocity := (velocity e2)\<lparr>vec_z := vec_z (velocity e2) - (k * spd * vec_z (velocity e2) / m) * dt\<rparr>\<rparr>)
           else e)"

text \<open>
  The incremental position step \<open>position += velocity * dt\<close>, written three times in
  the source, one component after the other.
\<close>

definition stepPosition :: "real \<Rightarrow> MotionObject \<Rightarrow> MotionObject" where
  "stepPosition dt e =
     e\<lparr>position := Vec (vec_x (position e) + vec_x (velocity e) * dt)
                        (vec_y (position e) + vec_y (velocity e) * dt)
                        (vec_z (position e) + vec_z (velocity e) * dt)\<rparr>"

text \<open>
  \<open>_updateLinear(dt)\<close> up to, and without, its last statement (the ground test).
\<close>

definition moveLinear :: "real \<Rightarrow> MotionObject \<Rightarrow> MotionObject" where
  "moveLinear dt e =
     (let e1 = applyDrag dt e in
      if dragMode e1 = ''none'' then
        (let t = elapsedTime e1 in
         e1\<lparr>position := Vec (vec_x (initialPosition e1) + vec_x (initialVelocity e1) * t)
                             (vec_y (initialPosition e1) + vec_y (initialVelocity e1) * t)
                             (vec_z (initialPosition e1) + vec_z (initialVelocity e1) * t)\<rparr>)
      else stepPosition dt e1)"

definition updateLinear :: "real \<Rightarrow> MotionObject \<Rightarrow> MotionObject" where
  "updateLinear dt e = handleGroundCollision (moveLinear dt e)"

text \<open>\<open>_updateAccelerated(dt)\<close>.\<close>

definition updateAccelerated :: "real \<Rightarrow> MotionObject \<Rightarrow> MotionObject" where
  "updateAccelerated dt e =
     (let e1 = applyDrag dt e;
          e2 =
            (if dragMode e1 = ''none'' then
               (let t = elapsedTime e1;
                    p0 = initialPosition e1; u = initialVelocity e1; a = acceleration e1
                in e1\<lparr>position := Vec (vec_x p0 + vec_x u * t + 0.5 * vec_x a * t * t)
                                      (vec_y p0 + vec_y u * t + 0.5 * vec_y a * t * t)
                                      (vec_z p0 + vec_z u * t + 0.5 * vec_z a * t * t),
                      velocity := Vec (vec_x u + vec_x a * t)
                                      (vec_y u + vec_y a * t)
                                      (vec_z u + vec_z a * t)\<rparr>)
             else
               stepPosition dt
                 (e1\<lparr>velocity := Vec (vec_x (velocity e1) + vec_x (acceleration e1) * dt)
                                      (vec_y (velocity e1) + vec_y (acceleration e1) * dt)
                                      (vec_z (velocity e1) + vec_z (acceleration e1) * dt)\<rparr>))
      in handleGroundCollision e2)"

text \<open>\<open>_updateFreefall(dt)\<close>.\<close>

definition updateFreefall :: "real \<Rightarrow> MotionObject \<Rightarrow> MotionObject" where
  "updateFreefall dt e =
     (let e1 = applyDrag dt e;
          e2 =
            (if dragMode e1 = ''none'' then
               (let t = elapsedTime e1; g = gravity e1 in
                e1\<lparr>position := Vec (vec_x (initialPosition e1))
                                   (vec_y (initialPosition e1) - 0.5 * g * t * t)
                                   (vec_z (initialPosition e1)),
                   velocity := (velocity e1)\<lparr>vec_y := - g * t\<rparr>\<rparr>)
             else
               stepPosition dt
                 (e1\<lparr>velocity := (velocity e1)\<lparr>vec_y := vec_y (velocity e1) + (- gravity e1) * dt\<rparr>\<rparr>))
      in handleGroundCollision e2)"

text \<open>\<open>_updateProjectile(dt)\<close>.\<close>

definition updateProjectile :: "real \<Rightarrow> MotionObject \<Rightarrow> MotionObject" where
  "updateProjectile dt e =
     (let e1 = applyDrag dt e;
          e2 =
            (if dragMode e1 = ''none'' then
               (let t = elapsedTime e1; g = gravity e1;
                    p0 = initialPosition e1; u = initialVelocity e1
                in e1\<lparr>position := Vec (vec_x p0 + vec_x u * t)
                                      (vec_y p0 + vec_y u * t - 0.5 * g * t * t)
                                      (vec_z p0 + vec_z u * t),
                      velocity := Vec (vec_x u) (vec_y u - g * t) (vec_z u)\<rparr>)
             else
               stepPosition dt
                 (e1\<lparr>velocity := (velocity e1)\<lparr>vec_y := vec_y (velocity e1) + (- gravity e1) * dt\<rparr>\<rparr>))
      in handleGroundCollision e2)"

text \<open>\<open>_updateCircular(dt)\<close>: no drag and no ground test.\<close>

definition updateCircular :: "real \<Rightarrow> MotionObject \<Rightarrow> MotionObject" where
  "updateCircular dt e =
     (let t = elapsedTime e;
          r = circularRadius e;
          w = angularVelocity e;
          sgn = (if circularClockwise e then - 1 else 1 :: real)
      in e\<lparr>position := Vec (vec_x (circularCenter e) + r * cos (sgn * w * t))
                           (vec_y (circularCenter e))
                           (vec_z (circularCenter e) + r * sin (sgn * w * t)),
            velocity := Vec (- r * w * sin (sgn * w * t) * sgn)
                            0
                            (r * w * cos (sgn * w * t) * sgn)\<rparr>)"

text \<open>
  \<open>_updateRelative(dt)\<close>. In the frame-relative view the method writes the mesh
  position (a TypeError on a disposed mesh) and returns before the ground test.
\<close>

definition updateRelative :: "real \<Rightarrow> MotionObject \<Rightarrow> error + MotionObject" where
  "updateRelative dt e =
     (let e1 = applyDrag dt e;
          totalVel = vec_add (velocity e1) (frameVelocity e1);
          e2 = e1\<lparr>position := Vec (vec_x (position e1) + vec_x totalVel * dt)
                                  (vec_y (position e1) + vec_y totalVel * dt)
                                  (vec_z (position e1) + vec_z totalVel * dt)\<rparr>
      in if \<not> viewInWorldFrame e2 then
           (let frameDisp = multiplyScalar (frameVelocity e2) (elapsedTime e2) in
            case mesh e2 of
              None \<Rightarrow> Inl TypeError
            | Some _ \<Rightarrow> Inr (e2\<lparr>mesh := Some (vec_sub (position e2) frameDisp)\<rparr>))
         else Inr (handleGroundCollision e2))"

text \<open>The \<open>switch (this.motionType)\<close> of \<open>update\<close>, with its \<open>default\<close> branch.\<close>

definition dispatch :: "real \<Rightarrow> MotionObject \<Rightarrow> error + MotionObject" where
  "dispatch dt e =
     (if motionType e = ''linear'' then Inr (updateLinear dt e)
      else if motionType e = ''accelerated'' then Inr (updateAccelerated dt e)
      else if motionType e = ''freefall'' then Inr (updateFreefall dt e)
      else if motionType e = ''projectile'' then Inr (updateProjectile dt e)
      else if motionType e = ''circular'' then Inr (updateCircular dt e)
      else if motionType e = ''relative'' then updateRelative dt e
      else Inr (updateLinear dt e))"

text \<open>
  \<open>_updateTrail()\<close>: append the position, drop the oldest point beyond
  \<open>maxTrailPoints\<close>, and rebuild the line once there are more than two points.
\<close>

definition updateTrail :: "MotionObject \<Rightarrow> MotionObject" where
  "updateTrail e =
     (let e1 = e\<lparr>trailPoints := trailPoints e @ [position e]\<rparr>;
          e2 = (if length (trailPoints e1) > maxTrailPoints e1
                then e1\<lparr>trailPoints := tl (trailPoints e1)\<rparr> else e1)
      in if length (trailPoints e2) > 2
         then (clearTrail e2)\<lparr>trailLine := Some (trailPoints e2)\<rparr>
         else e2)"

text \<open>\<open>_computeStats()\<close>.\<close>

definition computeStats :: "MotionObject \<Rightarrow> MotionObject" where
  "computeStats e =
     (let s0 = (stats e)\<lparr>speed := vec_length (velocity e),
                          displacement := vec_length (vec_sub (position e) (initialPosition e)),
                          accelerationMag := vec_length (acceleration e)\<rparr>;
          s1 = (if motionType e = ''circular''
                then s0\<lparr>centripetalAccel := angularVelocity e * angularVelocity e * circularRadius e\<rparr>
                else s0);
          s2 = (if motionType e = ''freefall'' \<and> vec_y (initialPosition e) > 0 \<and> gravity e > 0
                then
                  (let tImpact = sqrt (2 * dropHeight e / gravity e) in
                   s1\<lparr>timeToImpact := max 0 (tImpact - elapsedTime e),
                      impactVelocity := gravity e * tImpact\<rparr>)
                else s1);
          s3 = (if motionType e = ''projectile'' \<and> gravity e > 0
                then
                  (let vy0 = vec_y (initialVelocity e);
                       g = gravity e;
                       tFlight = (if vy0 > 0 then 2 * vy0 / g else 0);
                       maxH = (if vy0 > 0 then (vy0 * vy0) / (2 * g) else 0);
                       vHoriz = sqrt ((vec_x (initialVelocity e))\<^sup>2 + (vec_z (initialVelocity e))\<^sup>2)
                   in s2\<lparr>timeToImpact := max 0 (tFlight - elapsedTime e),
                         maxHeight := Some maxH,
                         range_stat := Some (vHoriz * tFlight),
                         impactVelocity := sqrt (vHoriz\<^sup>2 + (vy0 - g * tFlight)\<^sup>2)\<rparr>)
                else s2)
      in e\<lparr>stats := s3\<rparr>)"

text \<open>
  The statement \<open>this.mesh.position.copy(this.position)\<close> after the switch: it raises
  on a disposed mesh.
\<close>

definition syncMesh :: "MotionObject \<Rightarrow> error + MotionObject" where
  "syncMesh e =
     (case mesh e of
        None \<Rightarrow> Inl TypeError
      | Some _ \<Rightarrow> Inr (e\<lparr>mesh := Some (position e)\<rparr>))"

text \<open>
  \<open>update(dt)\<close>: the returned pair is the status string and the object after the call.
  After the switch come the mesh synchronisation, the trail and the stats.
\<close>

definition update :: "real \<Rightarrow> MotionObject \<Rightarrow> error + (string \<times> MotionObject)" where
  "update dt e =
     (if \<not> isLaunched e \<or> isStopped e then Inr (status e, e)
      else
        case dispatch dt (e\<lparr>elapsedTime := elapsedTime e + dt\<rparr>) of
          Inl err \<Rightarrow> Inl err
        | Inr e2 \<Rightarrow>
            (case syncMesh e2 of
               Inl err \<Rightarrow> Inl err
             | Inr e3 \<Rightarrow>
                 Inr (status (computeStats (updateTrail e3)), computeStats (updateTrail e3))))"

text \<open>\<open>dispose()\<close>.\<close>

definition dispose :: "MotionObject \<Rightarrow> MotionObject" where
  "dispose e = clearTrail (case mesh e of Some _ \<Rightarrow> e\<lparr>mesh := None\<rparr> | None \<Rightarrow> e)"

text \<open>
  One sample of \<open>computePreviewPoints\<close>: the \<open>switch\<close> inside the loop, at the
  preview time \<open>t\<close>, followed by the clamp \<open>if (py < 0) py = 0\<close>.
\<close>

definition previewPoint :: "MotionObject \<Rightarrow> real \<Rightarrow> Vector3" where
  "previewPoint e t =
     (let p0 = initialPosition e; u = initialVelocity e; a = acceleration e;
          (px, py, pz) =
            (if motionType e = ''linear'' then
               (vec_x p0 + vec_x u * t, vec_y p0 + vec_y u * t, vec_z p0 + vec_z u * t)
             else if motionType e = ''accelerated'' then
               (vec_x p0 + vec_x u * t + 0.5 * vec_x a * t * t,
                vec_y p0 + vec_y u * t + 0.5 * vec_y a * t * t,
                vec_z p0 + vec_z u * t + 0.5 * vec_z a * t * t)
             else if motionType e = ''freefall'' then
               (vec_x p0, vec_y p0 - 0.5 * gravity e * t * t, vec_z p0)
             else if motionType e = ''projectile'' then
               (vec_x p0 + vec_x u * t,
                vec_y p0 + vec_y u * t - 0.5 * gravity e * t * t,
                vec_z p0 + vec_z u * t)
             else if motionType e = ''circular'' then
               (let sgn = (if circularClockwise e then - 1 else 1 :: real) in
                (vec_x (circularCenter e) + circularRadius e * cos (sgn * angularVelocity e * t),
                 vec_y (circularCenter e),
                 vec_z (circularCenter e) + circularRadius e * sin (sgn * angularVelocity e * t)))
             else if motionType e = ''relative'' then
               (let totalVx = vec_x (velocity e) + vec_x (frameVelocity e);
                    totalVz = vec_z (velocity e) + vec_z (frameVelocity e)
                in (vec_x p0 + totalVx * t, vec_y p0 + vec_y (velocity e) * t, vec_z p0 + totalVz * t))
             else
               (vec_x p0 + vec_x u * t, vec_y p0 + vec_y u * t, vec_z p0 + vec_z u * t))
      in Vec px (if py < 0 then 0 else py) pz)"

text \<open>
  The \<open>for\<close> loop of \<open>computePreviewPoints\<close>, from index \<open>i\<close>, with the point
  list and the object threaded through: the loop pushes one point per round and
  breaks after a point on the ground (not at \<open>i = 0\<close>, not in circular mode).
\<close>

function previewLoop :: "nat \<Rightarrow> nat \<Rightarrow> Vector3 list \<times> MotionObject \<Rightarrow> Vector3 list \<times> MotionObject" where
  "previewLoop numPoints i (points, e) =
     (if i < numPoints then
        (let dt = 0.05 :: real;
             t = real i * dt;
             pt = previewPoint e t;
             points' = points @ [pt]
         in if vec_y pt \<le> 0 \<and> i > 0 \<and> motionType e \<noteq> ''circular''
            then (points', e)
            else previewLoop numPoints (Suc i) (points', e))
      else (points, e))"
  by pat_completeness auto
termination
  by (relation "measure (\<lambda>(n, i, s). n - i)") auto

declare previewLoop.simps [simp del]

text \<open>
  \<open>computePreviewPoints(numPoints)\<close>, with \<open>numPoints\<close> a number of points. The
  result is the returned array together with the object after the call.
\<close>

definition computePreviewPoints :: "nat \<Rightarrow> MotionObject \<Rightarrow> Vector3 list \<times> MotionObject" where
  "computePreviewPoints numPoints e = previewLoop numPoints 0 ([], e)"

section \<open>The two orchestrators\<close>

text \<open>
  Entities are objects with identity: the collection is an array of references, here
  addresses into a store. \<open>disposeCalls\<close> records, in order, the address of every
  object on which the orchestrator has called \<open>dispose()\<close>.
\<close>

record 'e world =
  heap :: "nat \<Rightarrow> 'e"
  disposeCalls :: "nat list"

text \<open>
  The loop shared, statement for statement, by \<open>KinematicsSimulation.update\<close> and
  \<open>PhysicsSimulation.update\<close>: \<open>for (let i = length - 1; i >= 0; i--)\<close>; the
  argument \<open>Suc i\<close> stands for the round at index \<open>i\<close>. \<open>splice(i, 1)\<close> is
  \<open>take i objs @ drop (Suc i) objs\<close>. An index beyond the array would read
  \<open>undefined\<close> and raise on the call of its \<open>update\<close>.
\<close>

fun reverseLoop ::
  "(real \<Rightarrow> 'e \<Rightarrow> error + (string \<times> 'e)) \<Rightarrow> ('e \<Rightarrow> 'e) \<Rightarrow> real \<Rightarrow> nat \<Rightarrow>
   nat list \<times> 'e world \<Rightarrow> error + (nat list \<times> 'e world)" where
  "reverseLoop upd disp scaledDt 0 s = Inr s"
| "reverseLoop upd disp scaledDt (Suc i) (objs, w) =
     (if i < length objs then
        (let a = objs ! i in
         case upd scaledDt (heap w a) of
           Inl err \<Rightarrow> Inl err
         | Inr (st, e') \<Rightarrow>
             (let w1 = w\<lparr>heap := (heap w)(a := e')\<rparr> in
              if st = ''remove''
              then reverseLoop upd disp scaledDt i
                     (take i objs @ drop (Suc i) objs,
                      w1\<lparr>heap := (heap w1)(a := disp (heap w1 a)),
                         disposeCalls := disposeCalls w1 @ [a]\<rparr>)
              else reverseLoop upd disp scaledDt i (objs, w1)))
      else Inl TypeError)"

record PhysicsSimulation =
  projectiles :: "nat list"
  timeScale :: real

definition PhysicsSimulation_update ::
  "real \<Rightarrow> PhysicsSimulation \<times> Projectile world \<Rightarrow> error + (PhysicsSimulation \<times> Projectile world)" where
  "PhysicsSimulation_update deltaTime sw =
     (let sim = fst sw; w = snd sw;
          scaledDt = deltaTime * PhysicsSimulation.timeScale sim
      in case reverseLoop Projectile_update Projectile_dispose scaledDt
                (length (projectiles sim)) (projectiles sim, w) of
           Inl err \<Rightarrow> Inl err
         | Inr (objs, w') \<Rightarrow> Inr (sim\<lparr>projectiles := objs\<rparr>, w'))"

record KinematicsSimulation =
  motionObjects :: "nat list"
  timeScale :: real

definition KinematicsSimulation_update ::
  "real \<Rightarrow> KinematicsSimulation \<times> MotionObject world \<Rightarrow>
   error + (KinematicsSimulation \<times> MotionObject world)" where
  "KinematicsSimulation_update deltaTime sw =
     (let sim = fst sw; w = snd sw;
          scaledDt = deltaTime * KinematicsSimulation.timeScale sim
      in case reverseLoop update dispose scaledDt
                (length (motionObjects sim)) (motionObjects sim, w) of
           Inl err \<Rightarrow> Inl err
         | Inr (objs, w') \<Rightarrow> Inr (sim\<lparr>motionObjects := objs\<rparr>, w'))"

text \<open>The \<open>count\<close> getters.\<close>

definition KinematicsSimulation_count :: "KinematicsSimulation \<Rightarrow> nat" where
  "KinematicsSimulation_count sim = length (motionObjects sim)"

definition PhysicsSimulation_count :: "PhysicsSimulation \<Rightarrow> nat" where
  "PhysicsSimulation_count sim = length (projectiles sim)"

section \<open>Runs and concrete scenes\<close>

text \<open>A run of frames: \<open>update\<close> called with each step in turn, stopping at an error.\<close>

fun updates :: "real list \<Rightarrow> MotionObject \<Rightarrow> error + MotionObject" where
  "updates [] e = Inr e"
| "updates (dt # dts) e =
     (case update dt e of Inl err \<Rightarrow> Inl err | Inr (st, e') \<Rightarrow> updates dts e')"

text \<open>The scenario \<open>launch()\<close>, some frames, then \<open>reset()\<close>.\<close>

definition resetAfter :: "real list \<Rightarrow> MotionObject \<Rightarrow> error + MotionObject" where
  "resetAfter dts e =
     (case updates dts (launch e) of Inl err \<Rightarrow> Inl err | Inr e1 \<Rightarrow> reset e1)"

text \<open>
  A ball spawned one metre above the ground, moving down at one metre per second, all
  other parameters at the constructor's defaults (linear mode, no drag, restitution 0.7).
\<close>

definition falling_ball :: MotionObject where
  "falling_ball = MotionObject_new (Vec 0 1 0) (no_params\<lparr>p_vy := Some (- 1)\<rparr>)"

text \<open>
  The same ball, launched, after one frame of half a second: the outcome of the run, and
  the object it leaves.
\<close>

definition ball_in_flight :: "error + MotionObject" where
  "ball_in_flight = updates [1/2] (launch falling_ball)"

definition ball_flying :: MotionObject where
  "ball_flying = projr ball_in_flight"

text \<open>
  The state the ground test receives inside \<open>update(2)\<close> of the launched ball: the
  elapsed time advanced, the position integrated, one metre below the ground.
\<close>

definition ball_at_ground :: MotionObject where
  "ball_at_ground = moveLinear 2 ((launch falling_ball)\<lparr>elapsedTime := 2\<rparr>)"

text \<open>
  A slower ball (a tenth of a metre per second), and the state its ground test receives
  inside \<open>update(20)\<close>: its rebound speed, 0.07, is below the threshold 0.1.
\<close>

definition slow_ball :: MotionObject where
  "slow_ball = MotionObject_new (Vec 0 1 0) (no_params\<lparr>p_vy := Some (- 1 / 10)\<rparr>)"

definition slow_ball_at_ground :: MotionObject where
  "slow_ball_at_ground = moveLinear 20 ((launch slow_ball)\<lparr>elapsedTime := 20\<rparr>)"

text \<open>The falling ball with bouncing switched off, at its ground test inside \<open>update(2)\<close>.\<close>

definition dead_ball :: MotionObject where
  "dead_ball =
     MotionObject_new (Vec 0 1 0) (no_params\<lparr>p_vy := Some (- 1), p_bounceEnabled := Some False\<rparr>)"

definition dead_ball_at_ground :: MotionObject where
  "dead_ball_at_ground = moveLinear 2 ((launch dead_ball)\<lparr>elapsedTime := 2\<rparr>)"

text \<open>
  A projectile fired horizontally from one metre up. Launched and updated with
  \<open>dt = 1\<close> it lands: the outcome of that call, and the projectile it leaves.
\<close>

definition flat_shot :: Projectile where
  "flat_shot =
     Projectile_new (Vec 0 1 0)
       \<lparr>pp_velocity = None, pp_angle = Some 0, pp_gravity = None, pp_mass = None\<rparr>"

definition landed_shot :: "error + (string \<times> Projectile)" where
  "landed_shot = Projectile_update 1 (Projectile_launch flat_shot)"

definition shot_on_ground :: Projectile where
  "shot_on_ground = snd (projr landed_shot)"

section \<open>Notions used in the statements\<close>

text \<open>
  A run of frames of an object in linear mode in which the ground test never fires:
  at every frame the state handed to \<open>_handleGroundCollision\<close> (elapsed time advanced,
  position integrated) does not satisfy its trigger.
\<close>

fun linearContactFree :: "real list \<Rightarrow> MotionObject \<Rightarrow> bool" where
  "linearContactFree [] e = True"
| "linearContactFree (dt # dts) e =
     (\<not> groundContact (moveLinear dt (e\<lparr>elapsedTime := elapsedTime e + dt\<rparr>)) \<and>
      (case update dt e of Inl err \<Rightarrow> False | Inr (st, e') \<Rightarrow> linearContactFree dts e'))"

text \<open>
  The invariant of such a run: an active object in linear mode without drag whose
  velocity is the snapshot velocity and whose position is the closed form at its
  elapsed time.
\<close>

definition onLine :: "MotionObject \<Rightarrow> bool" where
  "onLine x \<longleftrightarrow>
     motionType x = ''linear'' \<and> dragMode x = ''none'' \<and> mesh x \<noteq> None \<and>
     isLaunched x \<and> \<not> isStopped x \<and> status x = ''active'' \<and>
     velocity x = initialVelocity x \<and>
     position x = Vec (vec_x (initialPosition x) + vec_x (initialVelocity x) * elapsedTime x)
                      (vec_y (initialPosition x) + vec_y (initialVelocity x) * elapsedTime x)
                      (vec_z (initialPosition x) + vec_z (initialVelocity x) * elapsedTime x)"

text \<open>
  One orchestrator tick, seen from one address of the store before the tick: whether the
  object there returns \<open>remove\<close> from its update, and the object the tick leaves
  there (updated, and disposed when it returned \<open>remove\<close>).
\<close>

definition returnsRemove ::
  "(real \<Rightarrow> 'e \<Rightarrow> error + (string \<times> 'e)) \<Rightarrow> real \<Rightarrow> (nat \<Rightarrow> 'e) \<Rightarrow> nat \<Rightarrow> bool" where
  "returnsRemove upd dt h a =
     (case upd dt (h a) of Inl err \<Rightarrow> False | Inr (st, e') \<Rightarrow> st = ''remove'')"

definition afterTick ::
  "(real \<Rightarrow> 'e \<Rightarrow> error + (string \<times> 'e)) \<Rightarrow> ('e \<Rightarrow> 'e) \<Rightarrow> real \<Rightarrow> (nat \<Rightarrow> 'e) \<Rightarrow> nat \<Rightarrow> 'e" where
  "afterTick upd disp dt h a =
     (case upd dt (h a) of
        Inl err \<Rightarrow> h a
      | Inr (st, e') \<Rightarrow> if st = ''remove'' then disp e' else e')"

text \<open>A finite sequence of \<open>KinematicsSimulation.update\<close> calls, one per frame delta.\<close>

fun KinematicsSimulation_updates ::
  "real list \<Rightarrow> KinematicsSimulation \<times> MotionObject world \<Rightarrow>
   error + (KinematicsSimulation \<times> MotionObject world)" where
  "KinematicsSimulation_updates [] sw = Inr sw"
| "KinematicsSimulation_updates (deltaTime # rest) sw =
     (case KinematicsSimulation_update deltaTime sw of
        Inl err \<Rightarrow> Inl err
      | Inr sw' \<Rightarrow> KinematicsSimulation_updates rest sw')"

text \<open>
  The fields that only the display reads (mesh, trail, stats), set all at once: the
  motion code neither reads nor writes them, the mesh position in the frame-relative
  view apart.
\<close>

definition decor ::
  "Vector3 option \<Rightarrow> Vector3 list \<Rightarrow> Vector3 list option \<Rightarrow> Stats \<Rightarrow> MotionObject \<Rightarrow>
   MotionObject" where
  "decor m a b c x = x\<lparr>mesh := m, trailPoints := a, trailLine := b, stats := c\<rparr>"

text \<open>
  An object at the closed form of its mode: its position (and, where the mode computes
  it, its velocity) is the value of the mode's formula at the current snapshot and
  elapsed time. The relative mode has no closed form; an unrecognised mode has the
  linear one.
\<close>

definition atClosedForm :: "MotionObject \<Rightarrow> bool" where
  "atClosedForm e =
     (let t = elapsedTime e; p0 = initialPosition e; u = initialVelocity e;
          a = acceleration e; g = gravity e;
          r = circularRadius e; w = angularVelocity e; c = circularCenter e;
          sgn = (if circularClockwise e then - 1 else 1 :: real)
      in if motionType e = ''accelerated'' then
           position e = Vec (vec_x p0 + vec_x u * t + 0.5 * vec_x a * t * t)
                            (vec_y p0 + vec_y u * t + 0.5 * vec_y a * t * t)
                            (vec_z p0 + vec_z u * t + 0.5 * vec_z a * t * t) \<and>
           velocity e = Vec (vec_x u + vec_x a * t) (vec_y u + vec_y a * t) (vec_z u + vec_z a * t)
         else if motionType e = ''freefall'' then
           position e = Vec (vec_x p0) (vec_y p0 - 0.5 * g * t * t) (vec_z p0) \<and>
           vec_y (velocity e) = - g * t
         else if motionType e = ''projectile'' then
           position e = Vec (vec_x p0 + vec_x u * t)
                            (vec_y p0 + vec_y u * t - 0.5 * g * t * t)
                            (vec_z p0 + vec_z u * t) \<and>
           velocity e = Vec (vec_x u) (vec_y u - g * t) (vec_z u)
         else if motionType e = ''circular'' then
           position e = Vec (vec_x c + r * cos (sgn * w * t)) (vec_y c)
                            (vec_z c + r * sin (sgn * w * t)) \<and>
           velocity e = Vec (- r * w * sin (sgn * w * t) * sgn) 0 (r * w * cos (sgn * w * t) * sgn)
         else if motionType e = ''relative'' then True
         else
           position e = Vec (vec_x p0 + vec_x u * t) (vec_y p0 + vec_y u * t)
                            (vec_z p0 + vec_z u * t))"

text \<open>
  A settled object, by its fields: idle; or stopped; or active with a live mesh and
  \<^item> in circular mode, at the closed form;
  \<^item> in relative mode, with no ground contact pending when viewed in the world frame;
  \<^item> in every other mode, with no ground contact pending and, when the drag mode is
    \<open>none\<close>, at the closed form.
\<close>

definition settled :: "MotionObject \<Rightarrow> bool" where
  "settled e \<longleftrightarrow>
     \<not> isLaunched e \<or> isStopped e \<or>
     (mesh e \<noteq> None \<and>
      (if motionType e = ''circular'' then atClosedForm e
       else if motionType e = ''relative'' then (viewInWorldFrame e \<longrightarrow> \<not> groundContact e)
       else (dragMode e = ''none'' \<longrightarrow> atClosedForm e) \<and> \<not> groundContact e))"

text \<open>
  A frozen orchestrator (\<open>timeScale = 0\<close>) holding one object at address 0: a freshly
  launched object in circular mode, all other parameters at the defaults.
\<close>

definition orbiter :: MotionObject where
  "orbiter = MotionObject_new (Vec 0 1 0) (no_params\<lparr>p_motionType := Some ''circular''\<rparr>)"

definition frozen_sim :: KinematicsSimulation where
  "frozen_sim = \<lparr>motionObjects = [0], timeScale = 0\<rparr>"

definition orbit_world :: "MotionObject world" where
  "orbit_world = \<lparr>heap = (\<lambda>a. launch orbiter), disposeCalls = []\<rparr>"

text \<open>
  A ball with linear drag moving horizontally at height 1, to be launched; and the
  orbiter after one frame of half a second.
\<close>

definition dragged_ball :: MotionObject where
  "dragged_ball =
     MotionObject_new (Vec 0 1 0) (no_params\<lparr>p_vx := Some 1, p_dragMode := Some ''linear''\<rparr>)"

definition orbiter_turning :: MotionObject where
  "orbiter_turning = projr (updates [1 / 2] (launch orbiter))"

text \<open>
  A ball in freefall mode dropped from height 1, all other parameters at the defaults
  (no drag, bounce enabled, restitution 0.7).
\<close>

definition dropped_ball :: MotionObject where
  "dropped_ball = MotionObject_new (Vec 0 1 0) (no_params\<lparr>p_motionType := Some ''freefall''\<rparr>)"

text \<open>
  A frozen orchestrator holding the ball in flight (address 0), the idle ball
  (address 1), the launched ball with drag (address 2) and the turning orbiter
  (address 3).
\<close>

definition frozen_four :: KinematicsSimulation where
  "frozen_four = \<lparr>motionObjects = [0, 1, 2, 3], timeScale = 0\<rparr>"

definition ball_world :: "MotionObject world" where
  "ball_world =
     \<lparr>heap = (\<lambda>a. if a = 0 then ball_flying
                   else if a = 1 then falling_ball
                   else if a = 2 then launch dragged_ball
                   else orbiter_turning),
      disposeCalls = []\<rparr>"

text \<open>
  A running orchestrator holding the ball in flight (address 0), the idle ball flagged
  for removal by a collaborator (address 1) and the idle ball (address 2); and a
  projectile orchestrator holding the landed shot (address 0) and the shot in flight
  (address 1).
\<close>

definition kin_sim :: KinematicsSimulation where
  "kin_sim = \<lparr>motionObjects = [0, 1, 2], timeScale = 1\<rparr>"

definition kin_world :: "MotionObject world" where
  "kin_world =
     \<lparr>heap = (\<lambda>a. if a = 0 then ball_flying
                   else if a = 1 then falling_ball\<lparr>status := ''remove''\<rparr>
                   else falling_ball),
      disposeCalls = []\<rparr>"

definition shot_sim :: PhysicsSimulation where
  "shot_sim = \<lparr>projectiles = [0, 1], timeScale = 1\<rparr>"

definition shot_world :: "Projectile world" where
  "shot_world =
     \<lparr>heap = (\<lambda>a. if a = 0 then shot_on_ground else Projectile_launch flat_shot),
      disposeCalls = []\<rparr>"

section \<open>Evaluation of the scenes\<close>

lemmas scene_defs = falling_ball_def slow_ball_def dead_ball_def MotionObject_new_def
  no_params_def Vec_def

lemmas linear_defs = launch_def update_def dispatch_def updateLinear_def moveLinear_def
  applyDrag_def handleGroundCollision_def groundContact_def syncMesh_def updateTrail_def
  computeStats_def clearTrail_def Let_def

lemma ball_in_flight_Inr: "ball_in_flight = Inr ball_flying"
  by (simp add: ball_flying_def ball_in_flight_def scene_defs linear_defs)

section \<open>reset() after a bounce\<close>

text \<open>
  What \<open>reset()\<close> restores is the current snapshot, whatever wrote it last: the
  launch, or the re-basing of a bounce.
\<close>

lemma reset_restores_snapshot:
  "mesh e \<noteq> None \<Longrightarrow>
   \<exists>e'. reset e = Inr e' \<and> status e' = ''idle'' \<and> \<not> isLaunched e' \<and> elapsedTime e' = 0 \<and>
        position e' = initialPosition e \<and> velocity e' = initialVelocity e"
  by (cases "mesh e") (simp_all add: reset_def clearTrail_def Let_def)

text \<open>
  C1. The claim: after a launch and at least one bounce re-basing, \<open>reset()\<close> returns
  the object to idle at the spawn state recorded at launch. The code keeps one snapshot
  only, which the bounce overwrites: the ball spawned at height 1 with velocity
  \<open>(0, -1, 0)\<close>, launched, updated once with \<open>dt = 2\<close> (one bounce) and then reset
  is idle at \<open>(0, 0, 0)\<close> with velocity \<open>(0, 0.7, 0)\<close>, the state just after the
  bounce.
\<close>

theorem reset_after_bounce_example:
  "map_sum id (\<lambda>e. (status e, position e, velocity e)) (resetAfter [2] falling_ball)
     = Inr (''idle'', Vec 0 0 0, Vec 0 (7/10) 0) \<and>
   position (launch falling_ball) = Vec 0 1 0 \<and>
   velocity (launch falling_ball) = Vec 0 (- 1) 0"
  by (simp add: resetAfter_def reset_def scene_defs linear_defs)

section \<open>The ground-contact resolver\<close>

text \<open>
  C4, as stated, fails: the claim has the snapshot re-taken and the elapsed time reset
  only when the bounce does not stop the object. The slow ball stops at its first
  ground contact, and its snapshot and elapsed time are re-based all the same.
\<close>

theorem stopping_bounce_rebases:
  "groundContact slow_ball_at_ground \<and>
   status (handleGroundCollision slow_ball_at_ground) = ''stopped'' \<and>
   elapsedTime slow_ball_at_ground = 20 \<and>
   elapsedTime (handleGroundCollision slow_ball_at_ground) = 0 \<and>
   initialPosition slow_ball_at_ground = Vec 0 1 0 \<and>
   initialPosition (handleGroundCollision slow_ball_at_ground) = Vec 0 0 0 \<and>
   initialVelocity slow_ball_at_ground = Vec 0 (- 1 / 10) 0 \<and>
   initialVelocity (handleGroundCollision slow_ball_at_ground) = Vec 0 0 0"
  by (simp add: slow_ball_at_ground_def scene_defs linear_defs)

text \<open>
  C4, amended. When the trigger holds (\<open>position.y \<le> 0\<close> and \<open>velocity.y < 0\<close>) the
  resolver sets \<open>position.y\<close> to 0. With bouncing enabled and a positive restitution,
  \<open>velocity.y\<close> becomes \<open>- restitution * velocity.y\<close>; if that is below the bounce
  threshold in absolute value, \<open>velocity.y\<close> is zeroed and the object is stopped,
  otherwise status and stop flag are untouched; in both cases the snapshot is re-taken
  from the new position and velocity and the elapsed time is reset to 0. With bouncing
  disabled or a restitution that is not positive, \<open>velocity.y\<close> is zeroed, the object is
  stopped, and the snapshot and the elapsed time are left as they were.
\<close>

theorem ground_contact_resolution:
  "groundContact e \<Longrightarrow>
     vec_y (position (handleGroundCollision e)) = 0 \<and>
     (bounceEnabled e \<and> restitution e > 0 \<and>
      \<bar>- restitution e * vec_y (velocity e)\<bar> < bounceThreshold e \<longrightarrow>
        vec_y (velocity (handleGroundCollision e)) = 0 \<and>
        status (handleGroundCollision e) = ''stopped'' \<and>
        isStopped (handleGroundCollision e)) \<and>
     (bounceEnabled e \<and> restitution e > 0 \<and>
      \<not> \<bar>- restitution e * vec_y (velocity e)\<bar> < bounceThreshold e \<longrightarrow>
        vec_y (velocity (handleGroundCollision e)) = - restitution e * vec_y (velocity e) \<and>
        status (handleGroundCollision e) = status e \<and>
        isStopped (handleGroundCollision e) = isStopped e) \<and>
     (bounceEnabled e \<and> restitution e > 0 \<longrightarrow>
        initialPosition (handleGroundCollision e) = position (handleGroundCollision e) \<and>
        initialVelocity (handleGroundCollision e) = velocity (handleGroundCollision e) \<and>
        elapsedTime (handleGroundCollision e) = 0) \<and>
     (\<not> (bounceEnabled e \<and> restitution e > 0) \<longrightarrow>
        vec_y (velocity (handleGroundCollision e)) = 0 \<and>
        status (handleGroundCollision e) = ''stopped'' \<and>
        isStopped (handleGroundCollision e) \<and>
        initialPosition (handleGroundCollision e) = initialPosition e \<and>
        initialVelocity (handleGroundCollision e) = initialVelocity e \<and>
        elapsedTime (handleGroundCollision e) = elapsedTime e)"
  by (auto simp add: handleGroundCollision_def Let_def)

text \<open>The three branches at the three balls: a stopping bounce, a bounce, no bounce.\<close>

theorem ground_contact_resolution_witness:
  "groundContact slow_ball_at_ground \<and>
   bounceEnabled slow_ball_at_ground \<and> restitution slow_ball_at_ground > 0 \<and>
   \<bar>- restitution slow_ball_at_ground * vec_y (velocity slow_ball_at_ground)\<bar>
      < bounceThreshold slow_ball_at_ground \<and>
   vec_y (position (handleGroundCollision slow_ball_at_ground)) = 0 \<and>
   vec_y (velocity (handleGroundCollision slow_ball_at_ground)) = 0 \<and>
   status (handleGroundCollision slow_ball_at_ground) = ''stopped'' \<and>
   elapsedTime (handleGroundCollision slow_ball_at_ground) = 0 \<and>
   groundContact ball_at_ground \<and>
   bounceEnabled ball_at_ground \<and> restitution ball_at_ground > 0 \<and>
   \<not> \<bar>- restitution ball_at_ground * vec_y (velocity ball_at_ground)\<bar>
      < bounceThreshold ball_at_ground \<and>
   vec_y (velocity (handleGroundCollision ball_at_ground)) = 7 / 10 \<and>
   status (handleGroundCollision ball_at_ground) = ''active'' \<and>
   initialPosition (handleGroundCollision ball_at_ground) = Vec 0 0 0 \<and>
   elapsedTime (handleGroundCollision ball_at_ground) = 0 \<and>
   groundContact dead_ball_at_ground \<and>
   \<not> bounceEnabled dead_ball_at_ground \<and>
   vec_y (velocity (handleGroundCollision dead_ball_at_ground)) = 0 \<and>
   status (handleGroundCollision dead_ball_at_ground) = ''stopped'' \<and>
   initialPosition (handleGroundCollision dead_ball_at_ground) = Vec 0 1 0 \<and>
   elapsedTime (handleGroundCollision dead_ball_at_ground) = 2"
proof -
  have c1: "groundContact slow_ball_at_ground"
    and c2: "groundContact ball_at_ground"
    and c3: "groundContact dead_ball_at_ground"
    by (simp_all add: slow_ball_at_ground_def ball_at_ground_def dead_ball_at_ground_def
          scene_defs linear_defs)
  have v: "bounceEnabled slow_ball_at_ground" "restitution slow_ball_at_ground = 7 / 10"
      "vec_y (velocity slow_ball_at_ground) = - 1 / 10" "bounceThreshold slow_ball_at_ground = 1 / 10"
      "bounceEnabled ball_at_ground" "restitution ball_at_ground = 7 / 10"
      "vec_y (velocity ball_at_ground) = - 1" "bounceThreshold ball_at_ground = 1 / 10"
      "status ball_at_ground = ''active''"
      "position ball_at_ground = Vec 0 (- 1) 0"
      "\<not> bounceEnabled dead_ball_at_ground"
      "initialPosition dead_ball_at_ground = Vec 0 1 0"
      "elapsedTime dead_ball_at_ground = 2"
    by (simp_all add: slow_ball_at_ground_def ball_at_ground_def dead_ball_at_ground_def
          scene_defs linear_defs)
  have p: "position (handleGroundCollision ball_at_ground) = Vec 0 0 0"
    using v c2 by (simp add: handleGroundCollision_def Let_def Vec_def)
  show ?thesis
    using ground_contact_resolution [OF c1] ground_contact_resolution [OF c2]
      ground_contact_resolution [OF c3] c1 c2 c3 v p
    by simp
qed

text \<open>
  C10. Whenever the resolver fires, it changes only the \<open>y\<close> components of position
  and velocity: the \<open>x\<close> and \<open>z\<close> components of both are the same after as before.
\<close>

theorem ground_contact_keeps_horizontal:
  "groundContact e \<Longrightarrow>
     vec_x (position (handleGroundCollision e)) = vec_x (position e) \<and>
     vec_z (position (handleGroundCollision e)) = vec_z (position e) \<and>
     vec_x (velocity (handleGroundCollision e)) = vec_x (velocity e) \<and>
     vec_z (velocity (handleGroundCollision e)) = vec_z (velocity e)"
  by (simp add: handleGroundCollision_def Let_def)

theorem ground_contact_keeps_horizontal_witness:
  "groundContact ball_at_ground \<and>
   vec_y (position (handleGroundCollision ball_at_ground)) \<noteq> vec_y (position ball_at_ground) \<and>
   vec_x (position (handleGroundCollision ball_at_ground)) = vec_x (position ball_at_ground) \<and>
   vec_z (position (handleGroundCollision ball_at_ground)) = vec_z (position ball_at_ground) \<and>
   vec_x (velocity (handleGroundCollision ball_at_ground)) = vec_x (velocity ball_at_ground) \<and>
   vec_z (velocity (handleGroundCollision ball_at_ground)) = vec_z (velocity ball_at_ground)"
proof -
  have c: "groundContact ball_at_ground"
    by (simp add: ball_at_ground_def scene_defs linear_defs)
  have y: "vec_y (position (handleGroundCollision ball_at_ground)) \<noteq> vec_y (position ball_at_ground)"
    by (simp add: ball_at_ground_def scene_defs linear_defs)
  show ?thesis
    using ground_contact_keeps_horizontal [OF c] c y by simp
qed

section \<open>Trajectory preview\<close>

lemma previewLoop_bound:
  "length (fst (previewLoop n i (pts, e))) \<le> length pts + (n - i) \<and>
   snd (previewLoop n i (pts, e)) = e"
proof (induction n i "(pts, e)" arbitrary: pts rule: previewLoop.induct)
  case (1 numPoints i points)
  show ?case
  proof (cases "i < numPoints")
    case False
    then show ?thesis
      by (subst previewLoop.simps, subst (2) previewLoop.simps) simp
  next
    case inRange: True
    let ?pt = "previewPoint e (real i * 0.05)"
    show ?thesis
    proof (cases "vec_y ?pt \<le> 0 \<and> i > 0 \<and> motionType e \<noteq> ''circular''")
      case True
      with inRange show ?thesis
        by (subst previewLoop.simps, subst (2) previewLoop.simps) (simp add: Let_def)
    next
      case False
      have IH: "length (fst (previewLoop numPoints (Suc i) (points @ [?pt], e)))
              \<le> length (points @ [?pt]) + (numPoints - Suc i) \<and>
            snd (previewLoop numPoints (Suc i) (points @ [?pt], e)) = e"
        using "1.hyps"[OF inRange refl refl refl refl False] .
      have unfold: "previewLoop numPoints i (points, e) =
                    previewLoop numPoints (Suc i) (points @ [?pt], e)"
        using inRange False by (subst previewLoop.simps) (auto simp add: Let_def)
      from IH have "length (fst (previewLoop numPoints (Suc i) (points @ [?pt], e)))
              \<le> Suc (length points) + (numPoints - Suc i)"
        by simp
      also from inRange have "\<dots> = length points + (numPoints - i)"
        by arith
      finally show ?thesis
        unfolding unfold using IH by blast
    qed
  qed
qed

text \<open>
  C9. In every mode and state, \<open>computePreviewPoints(n)\<close> returns at most \<open>n\<close>
  points and leaves the object as it was: every field is the same after the call.
\<close>

theorem preview_bounded_and_pure:
  "length (fst (computePreviewPoints n e)) \<le> n \<and> snd (computePreviewPoints n e) = e"
  using previewLoop_bound[of n 0 "[]" e] by (simp add: computePreviewPoints_def)

section \<open>launch() on an object already launched\<close>

text \<open>
  C3, as stated, fails for \<open>MotionObject\<close>: its \<open>launch()\<close> has no guard. The ball
  in flight is launched, half a second into its run, with its snapshot at the spawn
  point; a second \<open>launch()\<close> resets the elapsed time and moves the snapshot.
\<close>

theorem relaunch_changes_state:
  "ball_in_flight = Inr ball_flying \<and>
   isLaunched ball_flying \<and>
   elapsedTime ball_flying = 1 / 2 \<and>
   elapsedTime (launch ball_flying) = 0 \<and>
   initialPosition ball_flying = Vec 0 1 0 \<and>
   initialPosition (launch ball_flying) = Vec 0 (1 / 2) 0"
  by (simp add: ball_flying_def ball_in_flight_def scene_defs linear_defs)

text \<open>
  C3, amended. \<open>Projectile.launch()\<close> is a no-op on a projectile already launched.
  \<open>MotionObject.launch()\<close> is not guarded: called in any state, also on an object
  already launched, it launches (again) from the current state: the status is active,
  the stop flag cleared, the elapsed time 0, and the snapshot equals the position and
  velocity the call leaves; outside freefall and circular mode it leaves position and
  velocity as they were.
\<close>

theorem launch_guard:
  "(Projectile.isLaunched p \<longrightarrow> Projectile_launch p = p) \<and>
   status (launch e) = ''active'' \<and> isLaunched (launch e) \<and> \<not> isStopped (launch e) \<and>
   elapsedTime (launch e) = 0 \<and>
   initialPosition (launch e) = position (launch e) \<and>
   initialVelocity (launch e) = velocity (launch e) \<and>
   (motionType e \<noteq> ''freefall'' \<and> motionType e \<noteq> ''circular'' \<longrightarrow>
      position (launch e) = position e \<and> velocity (launch e) = velocity e)"
  by (simp add: Projectile_launch_def launch_def Let_def)

theorem launch_guard_witness:
  "Projectile.isLaunched (Projectile_launch flat_shot) \<and>
   Projectile_launch (Projectile_launch flat_shot) = Projectile_launch flat_shot \<and>
   isLaunched ball_flying \<and>
   motionType ball_flying \<noteq> ''freefall'' \<and> motionType ball_flying \<noteq> ''circular'' \<and>
   status (launch ball_flying) = ''active'' \<and>
   elapsedTime (launch ball_flying) = 0 \<and>
   initialPosition (launch ball_flying) = position (launch ball_flying) \<and>
   position (launch ball_flying) = position ball_flying \<and>
   velocity (launch ball_flying) = velocity ball_flying"
proof -
  have l: "Projectile.isLaunched (Projectile_launch flat_shot)"
    by (simp add: Projectile_launch_def flat_shot_def Projectile_new_def clearTrajectoryLine_def
          Let_def)
  have b: "isLaunched ball_flying" "motionType ball_flying \<noteq> ''freefall''"
      "motionType ball_flying \<noteq> ''circular''"
    by (simp_all add: ball_flying_def ball_in_flight_def scene_defs linear_defs)
  show ?thesis
    using launch_guard [of "Projectile_launch flat_shot" ball_flying] l b by simp
qed

section \<open>The landing countdown of a projectile\<close>

lemmas shot_defs = flat_shot_def Projectile_new_def Projectile_launch_def Projectile_update_def
  Projectile_applyDrag_def clearTrajectoryLine_def degToRad_def Vec_def Let_def

lemma landed_shot_val: "landed_shot = Inr (''landed'', shot_on_ground)"
  by (simp add: shot_on_ground_def landed_shot_def shot_defs)

lemma shot_on_ground_fields:
  "Projectile.isLaunched shot_on_ground" "hasLanded shot_on_ground"
  "landedTimer shot_on_ground = 0"
  "Projectile.mesh shot_on_ground =
     Some \<lparr>mesh_position = \<lparr>vec_x = 20, vec_y = 0, vec_z = 0\<rparr>, opacity = Some 1,
           transparent = False\<rparr>"
  by (simp_all add: shot_on_ground_def landed_shot_def shot_defs)

text \<open>
  C8. For a launched projectile that has landed and still has its mesh, \<open>update(dt)\<close>
  adds \<open>dt\<close> to the landing timer; while the new timer is below 2 it returns
  \<open>landed\<close> and sets the opacity to \<open>max(0, 1 - landedTimer / 2)\<close> (and the material
  transparent); once the new timer is 2 or more it returns \<open>remove\<close>. In no state does
  \<open>update\<close> return \<open>remove\<close> otherwise.
\<close>

theorem landed_countdown:
  "(Projectile.isLaunched p \<and> hasLanded p \<and> landedTimer p + dt < 2 \<and>
    Projectile.mesh p = Some m \<and> opacity m \<noteq> None \<longrightarrow>
      Projectile_update dt p =
        Inr (''landed'',
             p\<lparr>landedTimer := landedTimer p + dt,
                Projectile.mesh := Some (m\<lparr>transparent := True,
                                          opacity := Some (max 0 (1 - (landedTimer p + dt) / 2))\<rparr>)\<rparr>)) \<and>
   (Projectile.isLaunched p \<and> hasLanded p \<and> 2 \<le> landedTimer p + dt \<longrightarrow>
      Projectile_update dt p = Inr (''remove'', p\<lparr>landedTimer := landedTimer p + dt\<rparr>)) \<and>
   (Projectile_update dt p = Inr (''remove'', p') \<longrightarrow>
      Projectile.isLaunched p \<and> hasLanded p \<and> 2 \<le> landedTimer p + dt)"
proof (intro conjI impI)
  assume "Projectile.isLaunched p \<and> hasLanded p \<and> landedTimer p + dt < 2 \<and>
    Projectile.mesh p = Some m \<and> opacity m \<noteq> None"
  then show "Projectile_update dt p =
        Inr (''landed'',
             p\<lparr>landedTimer := landedTimer p + dt,
                Projectile.mesh := Some (m\<lparr>transparent := True,
                                          opacity := Some (max 0 (1 - (landedTimer p + dt) / 2))\<rparr>)\<rparr>)"
    by (simp add: Projectile_update_def Let_def)
next
  assume "Projectile.isLaunched p \<and> hasLanded p \<and> 2 \<le> landedTimer p + dt"
  then show "Projectile_update dt p = Inr (''remove'', p\<lparr>landedTimer := landedTimer p + dt\<rparr>)"
    by (simp add: Projectile_update_def Let_def)
next
  assume r: "Projectile_update dt p = Inr (''remove'', p')"
  have "Projectile.isLaunched p \<and> hasLanded p \<and> 2 \<le> landedTimer p + dt"
    using r
    by (auto simp add: Projectile_update_def Projectile_applyDrag_def Let_def
          split: if_splits option.splits)
  then show "Projectile.isLaunched p" "hasLanded p" "2 \<le> landedTimer p + dt"
    by simp_all
qed

theorem landed_countdown_witness:
  "landed_shot = Inr (''landed'', shot_on_ground) \<and>
   map_sum id (\<lambda>(st, q). (st, landedTimer q, map_option opacity (Projectile.mesh q)))
     (Projectile_update (1 / 2) shot_on_ground) = Inr (''landed'', 1 / 2, Some (Some (3 / 4))) \<and>
   map_sum id fst (Projectile_update 2 shot_on_ground) = Inr ''remove''"
proof -
  note f = shot_on_ground_fields
  have a: "Projectile.isLaunched shot_on_ground \<and> hasLanded shot_on_ground \<and>
      landedTimer shot_on_ground + 1 / 2 < 2 \<and>
      Projectile.mesh shot_on_ground =
        Some \<lparr>mesh_position = \<lparr>vec_x = 20, vec_y = 0, vec_z = 0\<rparr>, opacity = Some 1,
              transparent = False\<rparr> \<and>
      opacity \<lparr>mesh_position = \<lparr>vec_x = 20, vec_y = 0, vec_z = 0\<rparr>, opacity = Some 1,
              transparent = False\<rparr> \<noteq> None"
    using f by simp
  have b: "Projectile.isLaunched shot_on_ground \<and> hasLanded shot_on_ground \<and>
      2 \<le> landedTimer shot_on_ground + 2"
    using f by simp
  show ?thesis
    using landed_countdown [of shot_on_ground "1 / 2"
        "\<lparr>mesh_position = \<lparr>vec_x = 20, vec_y = 0, vec_z = 0\<rparr>, opacity = Some 1,
          transparent = False\<rparr>"] a
      landed_countdown [of shot_on_ground 2] b landed_shot_val f(3)
    by simp
qed

section \<open>update(dt): the frame around the switch\<close>

lemma update_active:
  assumes "isLaunched x" "\<not> isStopped x"
  shows "update dt x =
     (case dispatch dt (x\<lparr>elapsedTime := elapsedTime x + dt\<rparr>) of
          Inl err \<Rightarrow> Inl err
        | Inr e2 \<Rightarrow>
            (case syncMesh e2 of
               Inl err \<Rightarrow> Inl err
             | Inr e3 \<Rightarrow>
                 Inr (status (computeStats (updateTrail e3)), computeStats (updateTrail e3))))"
  unfolding update_def by (simp only: assms simp_thms if_False)

lemma update_inactive:
  assumes "\<not> isLaunched x \<or> isStopped x"
  shows "update dt x = Inr (status x, x)"
  unfolding update_def by (simp only: assms if_True)

lemma dispatch_default:
  assumes "motionType x \<notin> {''accelerated'', ''freefall'', ''projectile'', ''circular'', ''relative''}"
  shows "dispatch dt x = Inr (updateLinear dt x)"
  using assms by (auto simp add: dispatch_def)

lemma updateTrail_frame:
  "updateTrail z = z\<lparr>trailPoints := trailPoints (updateTrail z), trailLine := trailLine (updateTrail z)\<rparr>"
  by (simp add: updateTrail_def clearTrail_def Let_def)

lemma computeStats_frame: "computeStats w = w\<lparr>stats := stats (computeStats w)\<rparr>"
  by (simp add: computeStats_def Let_def)

lemma after_sync_frame:
  "\<exists>a b c. computeStats (updateTrail z) = z\<lparr>trailPoints := a, trailLine := b, stats := c\<rparr>"
proof -
  obtain a b where t: "updateTrail z = z\<lparr>trailPoints := a, trailLine := b\<rparr>"
    using updateTrail_frame[of z] by blast
  obtain c where "computeStats (updateTrail z) = (updateTrail z)\<lparr>stats := c\<rparr>"
    using computeStats_frame[of "updateTrail z"] by blast
  with t show ?thesis by auto
qed

section \<open>An unrecognised motion type\<close>

lemma applyDrag_retype:
  "applyDrag dt (e\<lparr>motionType := m\<rparr>) = (applyDrag dt e)\<lparr>motionType := m\<rparr>"
  by (simp add: applyDrag_def Let_def)

lemma stepPosition_retype:
  "stepPosition dt (e\<lparr>motionType := m\<rparr>) = (stepPosition dt e)\<lparr>motionType := m\<rparr>"
  by (simp add: stepPosition_def)

lemma handleGroundCollision_retype:
  "handleGroundCollision (e\<lparr>motionType := m\<rparr>) = (handleGroundCollision e)\<lparr>motionType := m\<rparr>"
  by (simp add: handleGroundCollision_def groundContact_def Let_def)

lemma moveLinear_retype:
  "moveLinear dt (e\<lparr>motionType := m\<rparr>) = (moveLinear dt e)\<lparr>motionType := m\<rparr>"
  by (simp add: moveLinear_def applyDrag_retype stepPosition_retype Let_def)

lemma updateLinear_retype:
  "updateLinear dt (e\<lparr>motionType := m\<rparr>) = (updateLinear dt e)\<lparr>motionType := m\<rparr>"
  by (simp add: updateLinear_def moveLinear_retype handleGroundCollision_retype)

lemma syncMesh_retype:
  "syncMesh (x\<lparr>motionType := m\<rparr>) = map_sum id (\<lambda>z. z\<lparr>motionType := m\<rparr>) (syncMesh x)"
  by (cases "mesh x") (simp_all add: syncMesh_def)

lemma updateTrail_retype:
  "updateTrail (x\<lparr>motionType := m\<rparr>) = (updateTrail x)\<lparr>motionType := m\<rparr>"
  by (simp add: updateTrail_def clearTrail_def Let_def)

lemma computeStats_retype:
  assumes "m \<noteq> ''circular''" "m \<noteq> ''freefall''" "m \<noteq> ''projectile''"
  shows "computeStats (x\<lparr>motionType := m\<rparr>) = (computeStats (x\<lparr>motionType := ''linear''\<rparr>))\<lparr>motionType := m\<rparr>"
  using assms by (simp add: computeStats_def Let_def)

text \<open>What follows the switch, as one function of its outcome.\<close>

lemma finish_retype:
  assumes "m \<noteq> ''circular''" "m \<noteq> ''freefall''" "m \<noteq> ''projectile''"
  shows "(case syncMesh (y\<lparr>motionType := m\<rparr>) of Inl err \<Rightarrow> Inl err
          | Inr e3 \<Rightarrow> Inr (status (computeStats (updateTrail e3)), computeStats (updateTrail e3)))
       = map_sum id (\<lambda>(st, e'). (st, e'\<lparr>motionType := m\<rparr>))
          (case syncMesh (y\<lparr>motionType := ''linear''\<rparr>) of Inl err \<Rightarrow> Inl err
          | Inr e3 \<Rightarrow> Inr (status (computeStats (updateTrail e3)), computeStats (updateTrail e3)))"
proof (cases "syncMesh y")
  case (Inl err)
  then show ?thesis by (simp add: syncMesh_retype)
next
  case (Inr z)
  have st: "status (computeStats w) = status w" for w
    by (simp add: computeStats_def Let_def)
  have "computeStats ((updateTrail z)\<lparr>motionType := m\<rparr>) =
        (computeStats ((updateTrail z)\<lparr>motionType := ''linear''\<rparr>))\<lparr>motionType := m\<rparr>"
    by (rule computeStats_retype[OF assms])
  with Inr show ?thesis
    by (simp add: syncMesh_retype updateTrail_retype st)
qed

text \<open>
  C7. For a \<open>motionType\<close> that is none of the six recognised modes, \<open>update(dt)\<close>
  does exactly what it does on the same object in linear mode: the same outcome (error
  or returned status) and the same object after the call, stats included, the
  \<open>motionType\<close> field itself apart.
\<close>

theorem unrecognised_motionType_is_linear:
  assumes "m \<notin> {''linear'', ''accelerated'', ''freefall'', ''projectile'', ''circular'', ''relative''}"
  shows "update dt (e\<lparr>motionType := m\<rparr>) =
           map_sum id (\<lambda>(st, e'). (st, e'\<lparr>motionType := m\<rparr>)) (update dt (e\<lparr>motionType := ''linear''\<rparr>))"
proof (cases "\<not> isLaunched e \<or> isStopped e")
  case True
  then have "\<not> isLaunched (e\<lparr>motionType := m\<rparr>) \<or> isStopped (e\<lparr>motionType := m\<rparr>)"
    "\<not> isLaunched (e\<lparr>motionType := ''linear''\<rparr>) \<or> isStopped (e\<lparr>motionType := ''linear''\<rparr>)"
    by simp_all
  then show ?thesis
    by (simp add: update_inactive)
next
  case False
  then have act: "isLaunched (e\<lparr>motionType := m'\<rparr>)" "\<not> isStopped (e\<lparr>motionType := m'\<rparr>)" for m'
    by simp_all
  from assms have m: "m \<noteq> ''circular''" "m \<noteq> ''freefall''" "m \<noteq> ''projectile''"
    and mt: "m \<notin> {''accelerated'', ''freefall'', ''projectile'', ''circular'', ''relative''}"
    by auto
  define x where "x = e\<lparr>elapsedTime := elapsedTime e + dt\<rparr>"
  have xm: "(e\<lparr>motionType := m'\<rparr>)\<lparr>elapsedTime := elapsedTime (e\<lparr>motionType := m'\<rparr>) + dt\<rparr> = x\<lparr>motionType := m'\<rparr>" for m'
    unfolding x_def by simp
  have dm: "dispatch dt (x\<lparr>motionType := m\<rparr>) = Inr ((updateLinear dt x)\<lparr>motionType := m\<rparr>)"
    unfolding updateLinear_retype[symmetric]
    by (rule dispatch_default) (use mt in simp)
  have dl: "dispatch dt (x\<lparr>motionType := ''linear''\<rparr>) = Inr ((updateLinear dt x)\<lparr>motionType := ''linear''\<rparr>)"
    unfolding updateLinear_retype[symmetric]
    by (rule dispatch_default) simp
  show ?thesis
    unfolding update_active[OF act] xm dm dl sum.case
    by (rule finish_retype[OF m])
qed

theorem unrecognised_motionType_is_linear_witness:
  "''warp'' \<notin> {''linear'', ''accelerated'', ''freefall'', ''projectile'', ''circular'', ''relative''} \<and>
   update (1 / 2) ((launch falling_ball)\<lparr>motionType := ''warp''\<rparr>) =
     map_sum id (\<lambda>(st, e'). (st, e'\<lparr>motionType := ''warp''\<rparr>))
       (update (1 / 2) ((launch falling_ball)\<lparr>motionType := ''linear''\<rparr>)) \<and>
   map_sum id (\<lambda>(st, e'). (st, position e'))
     (update (1 / 2) ((launch falling_ball)\<lparr>motionType := ''warp''\<rparr>)) =
     Inr (''active'', Vec 0 (1 / 2) 0)"
proof -
  have n: "''warp'' \<notin> {''linear'', ''accelerated'', ''freefall'', ''projectile'', ''circular'', ''relative''}"
    by simp
  have v: "map_sum id (\<lambda>(st, e'). (st, position e'))
     (update (1 / 2) ((launch falling_ball)\<lparr>motionType := ''warp''\<rparr>)) =
     Inr (''active'', Vec 0 (1 / 2) 0)"
    by (simp add: scene_defs linear_defs)
  show ?thesis
    by (intro conjI n v unrecognised_motionType_is_linear [OF n])
qed

text \<open>The preview samples an unrecognised mode as it samples the linear one.\<close>

lemma previewPoint_unrecognised:
  assumes "m \<notin> {''linear'', ''accelerated'', ''freefall'', ''projectile'', ''circular'', ''relative''}"
  shows "previewPoint (e\<lparr>motionType := m\<rparr>) t = previewPoint (e\<lparr>motionType := ''linear''\<rparr>) t"
  using assms by (simp add: previewPoint_def)

section \<open>Linear motion without drag\<close>

lemma applyDrag_none: "dragMode x = ''none'' \<Longrightarrow> applyDrag dt x = x"
  by (simp add: applyDrag_def)

lemma moveLinear_none:
  "dragMode x = ''none'' \<Longrightarrow>
   moveLinear dt x =
     x\<lparr>position := Vec (vec_x (initialPosition x) + vec_x (initialVelocity x) * elapsedTime x)
                        (vec_y (initialPosition x) + vec_y (initialVelocity x) * elapsedTime x)
                        (vec_z (initialPosition x) + vec_z (initialVelocity x) * elapsedTime x)\<rparr>"
  by (simp add: moveLinear_def applyDrag_none Let_def)

lemma handleGroundCollision_idle: "\<not> groundContact y \<Longrightarrow> handleGroundCollision y = y"
  by (simp add: handleGroundCollision_def)

lemma linear_step:
  assumes inv: "onLine x"
    and free: "\<not> groundContact (moveLinear dt (x\<lparr>elapsedTime := elapsedTime x + dt\<rparr>))"
  shows "\<exists>x'. update dt x = Inr (''active'', x') \<and> onLine x' \<and>
           elapsedTime x' = elapsedTime x + dt \<and>
           initialPosition x' = initialPosition x \<and> initialVelocity x' = initialVelocity x"
proof -
  define x1 where "x1 = x\<lparr>elapsedTime := elapsedTime x + dt\<rparr>"
  define y where "y = x1\<lparr>position := Vec (vec_x (initialPosition x1) + vec_x (initialVelocity x1) * elapsedTime x1)
                        (vec_y (initialPosition x1) + vec_y (initialVelocity x1) * elapsedTime x1)
                        (vec_z (initialPosition x1) + vec_z (initialVelocity x1) * elapsedTime x1)\<rparr>"
  from inv have lin: "motionType x1 = ''linear''" and nd: "dragMode x1 = ''none''"
    and act: "isLaunched x" "\<not> isStopped x"
    by (simp_all add: onLine_def x1_def)
  have mv: "moveLinear dt x1 = y"
    unfolding y_def by (rule moveLinear_none[OF nd])
  have d: "dispatch dt x1 = Inr y"
    using dispatch_default[of x1 dt] lin free
    by (simp add: updateLinear_def mv[unfolded x1_def] x1_def handleGroundCollision_idle)
  from inv obtain q where q: "mesh y = Some q"
    by (auto simp add: onLine_def y_def x1_def)
  define z where "z = y\<lparr>mesh := Some (position y)\<rparr>"
  have s: "syncMesh y = Inr z"
    by (simp add: syncMesh_def q z_def)
  obtain a b c where f: "computeStats (updateTrail z) = z\<lparr>trailPoints := a, trailLine := b, stats := c\<rparr>"
    using after_sync_frame by blast
  have u: "update dt x = Inr (status (z\<lparr>trailPoints := a, trailLine := b, stats := c\<rparr>),
                              z\<lparr>trailPoints := a, trailLine := b, stats := c\<rparr>)"
    unfolding update_active[OF act] x1_def[symmetric] d sum.case s f ..
  have "onLine (z\<lparr>trailPoints := a, trailLine := b, stats := c\<rparr>)"
    using inv by (simp add: onLine_def z_def y_def x1_def)
  moreover have "status (z\<lparr>trailPoints := a, trailLine := b, stats := c\<rparr>) = ''active''"
    using inv by (simp add: onLine_def z_def y_def x1_def)
  moreover have "elapsedTime (z\<lparr>trailPoints := a, trailLine := b, stats := c\<rparr>) = elapsedTime x + dt"
    "initialPosition (z\<lparr>trailPoints := a, trailLine := b, stats := c\<rparr>) = initialPosition x"
    "initialVelocity (z\<lparr>trailPoints := a, trailLine := b, stats := c\<rparr>) = initialVelocity x"
    by (simp_all add: z_def y_def x1_def)
  ultimately show ?thesis
    unfolding u by simp
qed

lemma linear_run:
  "onLine x \<Longrightarrow> linearContactFree dts x \<Longrightarrow>
   \<exists>x'. updates dts x = Inr x' \<and> onLine x' \<and>
        elapsedTime x' = elapsedTime x + sum_list dts \<and>
        initialPosition x' = initialPosition x \<and> initialVelocity x' = initialVelocity x"
proof (induction dts arbitrary: x)
  case Nil
  then show ?case by simp
next
  case (Cons dt dts)
  from Cons.prems(2) have free: "\<not> groundContact (moveLinear dt (x\<lparr>elapsedTime := elapsedTime x + dt\<rparr>))"
    by simp
  from linear_step[OF Cons.prems(1) free] obtain x1 where
    x1: "update dt x = Inr (''active'', x1)" "onLine x1" "elapsedTime x1 = elapsedTime x + dt"
        "initialPosition x1 = initialPosition x" "initialVelocity x1 = initialVelocity x"
    by blast
  from Cons.prems(2) x1(1) have "linearContactFree dts x1" by simp
  from Cons.IH[OF x1(2) this] obtain x' where
    x': "updates dts x1 = Inr x'" "onLine x'" "elapsedTime x' = elapsedTime x1 + sum_list dts"
        "initialPosition x' = initialPosition x1" "initialVelocity x' = initialVelocity x1"
    by blast
  show ?case
    using x1 x' by (simp add: algebra_simps)
qed

lemma launch_onLine:
  assumes "motionType e = ''linear''" "dragMode e = ''none''" "mesh e \<noteq> None"
  shows "onLine (launch e)" "elapsedTime (launch e) = 0"
    "initialPosition (launch e) = position e" "initialVelocity (launch e) = velocity e"
  using assms by (simp_all add: onLine_def launch_def Let_def Vec_def)

text \<open>
  C6. A launched object in linear mode with drag mode \<open>none\<close> (and a live mesh), run
  through any sequence of frames in which the ground contact never triggers, ends with
  elapsed time the sum \<open>t\<close> of the steps, position \<open>p0 + v0 * t\<close> for the position
  \<open>p0\<close> and velocity \<open>v0\<close> recorded at launch, velocity \<open>v0\<close>, and the snapshot
  unchanged.
\<close>

theorem linear_analytic:
  assumes "motionType e = ''linear''" "dragMode e = ''none''" "mesh e \<noteq> None"
    and "linearContactFree dts (launch e)"
  shows "\<exists>e'. updates dts (launch e) = Inr e' \<and>
           elapsedTime e' = sum_list dts \<and>
           position e' = Vec (vec_x (position e) + vec_x (velocity e) * sum_list dts)
                             (vec_y (position e) + vec_y (velocity e) * sum_list dts)
                             (vec_z (position e) + vec_z (velocity e) * sum_list dts) \<and>
           velocity e' = velocity e \<and>
           initialPosition e' = position e \<and> initialVelocity e' = velocity e"
proof -
  note l = launch_onLine[OF assms(1-3)]
  from linear_run[OF l(1) assms(4)] obtain e' where
    e': "updates dts (launch e) = Inr e'" "onLine e'" "elapsedTime e' = elapsedTime (launch e) + sum_list dts"
        "initialPosition e' = initialPosition (launch e)" "initialVelocity e' = initialVelocity (launch e)"
    by blast
  from e'(2) have "velocity e' = initialVelocity e'"
    and "position e' = Vec (vec_x (initialPosition e') + vec_x (initialVelocity e') * elapsedTime e')
                      (vec_y (initialPosition e') + vec_y (initialVelocity e') * elapsedTime e')
                      (vec_z (initialPosition e') + vec_z (initialVelocity e') * elapsedTime e')"
    by (simp_all add: onLine_def)
  with e' l show ?thesis by simp
qed

theorem linear_analytic_witness:
  "motionType falling_ball = ''linear'' \<and> dragMode falling_ball = ''none'' \<and>
   mesh falling_ball \<noteq> None \<and>
   linearContactFree [1 / 4, 1 / 4] (launch falling_ball) \<and>
   map_sum id (\<lambda>e. (elapsedTime e, position e, velocity e))
     (updates [1 / 4, 1 / 4] (launch falling_ball)) = Inr (1 / 2, Vec 0 (1 / 2) 0, Vec 0 (- 1) 0)"
proof -
  have h: "motionType falling_ball = ''linear''" "dragMode falling_ball = ''none''"
      "mesh falling_ball \<noteq> None"
    by (simp_all add: scene_defs Let_def)
  have c: "linearContactFree [1 / 4, 1 / 4] (launch falling_ball)"
    by (simp add: scene_defs linear_defs)
  have p: "position falling_ball = Vec 0 1 0" "velocity falling_ball = Vec 0 (- 1) 0"
    by (simp_all add: scene_defs Let_def)
  from linear_analytic [OF h c] obtain e' where
    "updates [1 / 4, 1 / 4] (launch falling_ball) = Inr e'" "elapsedTime e' = 1 / 2"
    "position e' = Vec 0 (1 / 2) 0" "velocity e' = Vec 0 (- 1) 0"
    by (auto simp add: p Vec_def)
  with h c show ?thesis by simp
qed

section \<open>The reverse loop of the orchestrators\<close>

lemma reverseLoop_char:
  assumes "i \<le> length objs" "distinct (take i objs)"
    and "\<forall>a\<in>set (take i objs). \<not> isl (upd dt (heap w a))"
  shows "reverseLoop upd disp dt i (objs, w) =
     Inr (filter (\<lambda>a. \<not> returnsRemove upd dt (heap w) a) (take i objs) @ drop i objs,
          w\<lparr>heap := (\<lambda>a. if a \<in> set (take i objs) then afterTick upd disp dt (heap w) a else heap w a),
            disposeCalls := disposeCalls w @ rev (filter (returnsRemove upd dt (heap w)) (take i objs))\<rparr>)"
  using assms
proof (induction i arbitrary: objs w)
  case 0
  then show ?case by simp
next
  case (Suc i)
  let ?a = "objs ! i"
  from Suc.prems(1) have len: "i < length objs" by simp
  have tk: "take (Suc i) objs = take i objs @ [?a]"
    using len by (simp add: take_Suc_conv_app_nth)
  from Suc.prems(2) have fresh: "?a \<notin> set (take i objs)" and dist: "distinct (take i objs)"
    by (simp_all add: tk)
  from Suc.prems(3) obtain st e' where ret: "upd dt (heap w ?a) = Inr (st, e')"
    by (cases "upd dt (heap w ?a)") (auto simp add: tk)
  define w1 where "w1 = w\<lparr>heap := (heap w)(?a := e')\<rparr>"
  have same: "heap w1 b = heap w b" if "b \<in> set (take i objs)" for b
    using that fresh by (auto simp add: w1_def)
  have ok1: "\<forall>b\<in>set (take i objs). \<not> isl (upd dt (heap w1 b))"
    using Suc.prems(3) same by (simp add: tk)
  have rr: "returnsRemove upd dt (heap w1) b = returnsRemove upd dt (heap w) b"
    and at: "afterTick upd disp dt (heap w1) b = afterTick upd disp dt (heap w) b"
    if "b \<in> set (take i objs)" for b
    using same[OF that] by (simp_all add: returnsRemove_def afterTick_def split: sum.split)
  have filt: "filter (\<lambda>b. \<not> returnsRemove upd dt (heap w1) b) (take i objs) =
              filter (\<lambda>b. \<not> returnsRemove upd dt (heap w) b) (take i objs)"
    "filter (returnsRemove upd dt (heap w1)) (take i objs) =
     filter (returnsRemove upd dt (heap w)) (take i objs)"
    using rr by (auto intro: filter_cong)
  show ?case
  proof (cases "st = ''remove''")
    case False
    have step: "reverseLoop upd disp dt (Suc i) (objs, w) = reverseLoop upd disp dt i (objs, w1)"
      using len ret False by (simp add: w1_def Let_def)
    have keep: "\<not> returnsRemove upd dt (heap w) ?a" and post: "afterTick upd disp dt (heap w) ?a = e'"
      using ret False by (simp_all add: returnsRemove_def afterTick_def)
    have IH: "reverseLoop upd disp dt i (objs, w1) =
      Inr (filter (\<lambda>a. \<not> returnsRemove upd dt (heap w1) a) (take i objs) @ drop i objs,
          w1\<lparr>heap := (\<lambda>a. if a \<in> set (take i objs) then afterTick upd disp dt (heap w1) a else heap w1 a),
            disposeCalls := disposeCalls w1 @ rev (filter (returnsRemove upd dt (heap w1)) (take i objs))\<rparr>)"
      using Suc.IH[of objs w1] len dist ok1 by simp
    have heap_eq: "(\<lambda>a. if a \<in> set (take i objs) then afterTick upd disp dt (heap w1) a else heap w1 a) =
          (\<lambda>a. if a \<in> set (take (Suc i) objs) then afterTick upd disp dt (heap w) a else heap w a)"
      using at post by (auto simp add: tk w1_def fun_eq_iff)
    show ?thesis
      unfolding step IH filt heap_eq
      using keep len by (simp add: tk w1_def Cons_nth_drop_Suc)
  next
    case True
    define w2 where "w2 = w1\<lparr>heap := (heap w1)(?a := disp (heap w1 ?a)),
                            disposeCalls := disposeCalls w1 @ [?a]\<rparr>"
    define objs' where "objs' = take i objs @ drop (Suc i) objs"
    have step: "reverseLoop upd disp dt (Suc i) (objs, w) = reverseLoop upd disp dt i (objs', w2)"
      using len ret True by (simp add: w1_def w2_def objs'_def Let_def)
    have gone: "returnsRemove upd dt (heap w) ?a" and post: "afterTick upd disp dt (heap w) ?a = disp e'"
      using ret True by (simp_all add: returnsRemove_def afterTick_def)
    have tk': "take i objs' = take i objs" and dr': "drop i objs' = drop (Suc i) objs"
      and len': "i \<le> length objs'"
      using len by (simp_all add: objs'_def)
    have same2: "heap w2 b = heap w b" if "b \<in> set (take i objs)" for b
      using that fresh by (auto simp add: w2_def w1_def)
    have ok2: "\<forall>b\<in>set (take i objs'). \<not> isl (upd dt (heap w2 b))"
      using Suc.prems(3) same2 by (simp add: tk tk')
    have rr2: "returnsRemove upd dt (heap w2) b = returnsRemove upd dt (heap w) b"
      and at2: "afterTick upd disp dt (heap w2) b = afterTick upd disp dt (heap w) b"
      if "b \<in> set (take i objs)" for b
      using same2[OF that] by (simp_all add: returnsRemove_def afterTick_def split: sum.split)
    have filt2: "filter (\<lambda>b. \<not> returnsRemove upd dt (heap w2) b) (take i objs) =
              filter (\<lambda>b. \<not> returnsRemove upd dt (heap w) b) (take i objs)"
      "filter (returnsRemove upd dt (heap w2)) (take i objs) =
       filter (returnsRemove upd dt (heap w)) (take i objs)"
      using rr2 by (auto intro: filter_cong)
    have IH: "reverseLoop upd disp dt i (objs', w2) =
      Inr (filter (\<lambda>a. \<not> returnsRemove upd dt (heap w2) a) (take i objs) @ drop (Suc i) objs,
          w2\<lparr>heap := (\<lambda>a. if a \<in> set (take i objs) then afterTick upd disp dt (heap w2) a else heap w2 a),
            disposeCalls := disposeCalls w2 @ rev (filter (returnsRemove upd dt (heap w2)) (take i objs))\<rparr>)"
      using Suc.IH[of objs' w2] len' dist ok2 by (simp add: tk' dr')
    have heap_eq: "(\<lambda>a. if a \<in> set (take i objs) then afterTick upd disp dt (heap w2) a else heap w2 a) =
          (\<lambda>a. if a \<in> set (take (Suc i) objs) then afterTick upd disp dt (heap w) a else heap w a)"
      using at2 post by (auto simp add: tk w1_def w2_def fun_eq_iff)
    show ?thesis
      unfolding step IH filt2 heap_eq
      using gone by (simp add: tk w1_def w2_def)
  qed
qed

section \<open>Removal during an orchestrator tick\<close>

lemma count_list_filter_distinct:
  "distinct xs \<Longrightarrow> count_list (filter P xs) a = (if a \<in> set xs \<and> P a then 1 else 0)"
  by (induction xs) auto

lemma length_filter_not:
  assumes "distinct xs"
  shows "length (filter (\<lambda>a. \<not> P a) xs) = length xs - card {a \<in> set xs. P a}"
proof -
  have "card {a \<in> set xs. P a} = length (filter P xs)"
    using assms distinct_card[of "filter P xs"] by simp
  then show ?thesis
    using sum_length_filter_compl[of P xs] by simp
qed

lemma tick_removal:
  assumes "distinct objs" and "\<forall>a\<in>set objs. \<not> isl (upd dt (heap w a))"
  shows "\<exists>objs' w'. reverseLoop upd disp dt (length objs) (objs, w) = Inr (objs', w') \<and>
       objs' = filter (\<lambda>a. \<not> returnsRemove upd dt (heap w) a) objs \<and>
       length objs' = length objs - card {a \<in> set objs. returnsRemove upd dt (heap w) a} \<and>
       (\<forall>a. count_list (disposeCalls w') a = count_list (disposeCalls w) a +
              (if a \<in> set objs \<and> returnsRemove upd dt (heap w) a then 1 else 0)) \<and>
       (\<forall>a. heap w' a = (if a \<in> set objs then afterTick upd disp dt (heap w) a else heap w a))"
proof -
  have "reverseLoop upd disp dt (length objs) (objs, w) =
     Inr (filter (\<lambda>a. \<not> returnsRemove upd dt (heap w) a) objs,
          w\<lparr>heap := (\<lambda>a. if a \<in> set objs then afterTick upd disp dt (heap w) a else heap w a),
            disposeCalls := disposeCalls w @ rev (filter (returnsRemove upd dt (heap w)) objs)\<rparr>)"
    using reverseLoop_char[of "length objs" objs upd dt w disp] assms by simp
  then show ?thesis
    using assms(1)
    by (simp add: length_filter_not count_list_rev count_list_filter_distinct)
qed

lemma dispose_clears: "mesh (dispose x) = None" "trailLine (dispose x) = None"
  by (cases "mesh x"; simp add: dispose_def clearTrail_def)+

lemma Projectile_dispose_clears:
  "Projectile.mesh (Projectile_dispose p) = None" "ring (Projectile_dispose p) = None"
  "trajectoryLine (Projectile_dispose p) = None"
  by (simp_all add: Projectile_dispose_def clearTrajectoryLine_def)

lemma tick_store:
  assumes "\<forall>a. heap w' a = (if a \<in> set objs then afterTick upd disp dt (heap w) a else heap w a)"
  shows "(\<forall>a\<in>set objs. \<forall>st e'. upd dt (heap w a) = Inr (st, e') \<longrightarrow>
            heap w' a = (if st = ''remove'' then disp e' else e')) \<and>
         (\<forall>a. a \<notin> set objs \<longrightarrow> heap w' a = heap w a)"
  using assms by (simp add: afterTick_def)

text \<open>
  C5. For an orchestrator holding \<open>N\<close> distinct entities whose updates all return
  on this tick: after \<open>update(deltaTime)\<close> the collection holds, in their order, the
  entities that did not return \<open>remove\<close>, so \<open>N\<close> minus the number of those that
  did; the tick has called \<open>dispose()\<close> exactly once on each entity that returned
  \<open>remove\<close> and on no other; and in the store every entity of the collection is
  the outcome of its update, disposed exactly when that update returned \<open>remove\<close>
  (a removed motion object is left without mesh and trail line, a removed projectile
  without mesh, ring and trajectory line), while every object outside the collection
  is untouched. This holds for \<open>KinematicsSimulation\<close> and for
  \<open>PhysicsSimulation\<close>.
\<close>

theorem removal_safety:
  "(distinct (motionObjects sim) \<and>
    (\<forall>a\<in>set (motionObjects sim).
        \<not> isl (update (deltaTime * KinematicsSimulation.timeScale sim) (heap w a))) \<longrightarrow>
    (\<exists>sim' w'. KinematicsSimulation_update deltaTime (sim, w) = Inr (sim', w') \<and>
       motionObjects sim' =
         filter (\<lambda>a. \<not> returnsRemove update (deltaTime * KinematicsSimulation.timeScale sim) (heap w) a)
           (motionObjects sim) \<and>
       KinematicsSimulation_count sim' =
         KinematicsSimulation_count sim -
         card {a \<in> set (motionObjects sim).
                 returnsRemove update (deltaTime * KinematicsSimulation.timeScale sim) (heap w) a} \<and>
       (\<forall>a. count_list (disposeCalls w') a =
              count_list (disposeCalls w) a +
              (if a \<in> set (motionObjects sim) \<and>
                  returnsRemove update (deltaTime * KinematicsSimulation.timeScale sim) (heap w) a
               then 1 else 0)) \<and>
       (\<forall>a\<in>set (motionObjects sim). \<forall>st e'.
            update (deltaTime * KinematicsSimulation.timeScale sim) (heap w a) = Inr (st, e') \<longrightarrow>
            heap w' a = (if st = ''remove'' then dispose e' else e')) \<and>
       (\<forall>a. a \<notin> set (motionObjects sim) \<longrightarrow> heap w' a = heap w a) \<and>
       (\<forall>a\<in>set (motionObjects sim).
            returnsRemove update (deltaTime * KinematicsSimulation.timeScale sim) (heap w) a \<longrightarrow>
            mesh (heap w' a) = None \<and> trailLine (heap w' a) = None))) \<and>
   (distinct (projectiles psim) \<and>
    (\<forall>a\<in>set (projectiles psim).
        \<not> isl (Projectile_update (deltaTime * PhysicsSimulation.timeScale psim) (heap pw a))) \<longrightarrow>
    (\<exists>psim' pw'. PhysicsSimulation_update deltaTime (psim, pw) = Inr (psim', pw') \<and>
       projectiles psim' =
         filter (\<lambda>a. \<not> returnsRemove Projectile_update (deltaTime * PhysicsSimulation.timeScale psim) (heap pw) a)
           (projectiles psim) \<and>
       PhysicsSimulation_count psim' =
         PhysicsSimulation_count psim -
         card {a \<in> set (projectiles psim).
                 returnsRemove Projectile_update (deltaTime * PhysicsSimulation.timeScale psim) (heap pw) a} \<and>
       (\<forall>a. count_list (disposeCalls pw') a =
              count_list (disposeCalls pw) a +
              (if a \<in> set (projectiles psim) \<and>
                  returnsRemove Projectile_update (deltaTime * PhysicsSimulation.timeScale psim) (heap pw) a
               then 1 else 0)) \<and>
       (\<forall>a\<in>set (projectiles psim). \<forall>st p'.
            Projectile_update (deltaTime * PhysicsSimulation.timeScale psim) (heap pw a) = Inr (st, p') \<longrightarrow>
            heap pw' a = (if st = ''remove'' then Projectile_dispose p' else p')) \<and>
       (\<forall>a. a \<notin> set (projectiles psim) \<longrightarrow> heap pw' a = heap pw a) \<and>
       (\<forall>a\<in>set (projectiles psim).
            returnsRemove Projectile_update (deltaTime * PhysicsSimulation.timeScale psim) (heap pw) a \<longrightarrow>
            Projectile.mesh (heap pw' a) = None \<and> ring (heap pw' a) = None \<and>
            trajectoryLine (heap pw' a) = None)))"
proof (intro conjI impI)
  let ?dt = "deltaTime * KinematicsSimulation.timeScale sim"
  assume a: "distinct (motionObjects sim) \<and>
    (\<forall>a\<in>set (motionObjects sim). \<not> isl (update ?dt (heap w a)))"
  from tick_removal[of "motionObjects sim" update ?dt w dispose] a
  obtain objs' w' where
    r: "reverseLoop update dispose ?dt (length (motionObjects sim)) (motionObjects sim, w) = Inr (objs', w')"
    and rest: "objs' = filter (\<lambda>a. \<not> returnsRemove update ?dt (heap w) a) (motionObjects sim)"
      "length objs' = length (motionObjects sim) - card {a \<in> set (motionObjects sim). returnsRemove update ?dt (heap w) a}"
      "\<forall>a. count_list (disposeCalls w') a = count_list (disposeCalls w) a +
              (if a \<in> set (motionObjects sim) \<and> returnsRemove update ?dt (heap w) a then 1 else 0)"
    and hp: "\<forall>a. heap w' a = (if a \<in> set (motionObjects sim) then afterTick update dispose ?dt (heap w) a else heap w a)"
    by blast
  note st = tick_store[OF hp]
  have gone: "\<forall>a\<in>set (motionObjects sim). returnsRemove update ?dt (heap w) a \<longrightarrow>
            mesh (heap w' a) = None \<and> trailLine (heap w' a) = None"
    using hp by (auto simp add: afterTick_def returnsRemove_def dispose_clears split: sum.splits)
  have u: "KinematicsSimulation_update deltaTime (sim, w) = Inr (sim\<lparr>motionObjects := objs'\<rparr>, w')"
    by (simp add: KinematicsSimulation_update_def Let_def r)
  show "\<exists>sim' w'. KinematicsSimulation_update deltaTime (sim, w) = Inr (sim', w') \<and>
       motionObjects sim' = filter (\<lambda>a. \<not> returnsRemove update ?dt (heap w) a) (motionObjects sim) \<and>
       KinematicsSimulation_count sim' =
         KinematicsSimulation_count sim -
         card {a \<in> set (motionObjects sim). returnsRemove update ?dt (heap w) a} \<and>
       (\<forall>a. count_list (disposeCalls w') a =
              count_list (disposeCalls w) a +
              (if a \<in> set (motionObjects sim) \<and> returnsRemove update ?dt (heap w) a then 1 else 0)) \<and>
       (\<forall>a\<in>set (motionObjects sim). \<forall>st e'.
            update ?dt (heap w a) = Inr (st, e') \<longrightarrow>
            heap w' a = (if st = ''remove'' then dispose e' else e')) \<and>
       (\<forall>a. a \<notin> set (motionObjects sim) \<longrightarrow> heap w' a = heap w a) \<and>
       (\<forall>a\<in>set (motionObjects sim). returnsRemove update ?dt (heap w) a \<longrightarrow>
            mesh (heap w' a) = None \<and> trailLine (heap w' a) = None)"
    unfolding u using rest st gone
    by (intro exI[of _ "sim\<lparr>motionObjects := objs'\<rparr>"] exI[of _ w'])
       (simp add: KinematicsSimulation_count_def)
next
  let ?dt = "deltaTime * PhysicsSimulation.timeScale psim"
  assume a: "distinct (projectiles psim) \<and>
    (\<forall>a\<in>set (projectiles psim). \<not> isl (Projectile_update ?dt (heap pw a)))"
  from tick_removal[of "projectiles psim" Projectile_update ?dt pw Projectile_dispose] a
  obtain objs' w' where
    r: "reverseLoop Projectile_update Projectile_dispose ?dt (length (projectiles psim)) (projectiles psim, pw) = Inr (objs', w')"
    and rest: "objs' = filter (\<lambda>a. \<not> returnsRemove Projectile_update ?dt (heap pw) a) (projectiles psim)"
      "length objs' = length (projectiles psim) - card {a \<in> set (projectiles psim). returnsRemove Projectile_update ?dt (heap pw) a}"
      "\<forall>a. count_list (disposeCalls w') a = count_list (disposeCalls pw) a +
              (if a \<in> set (projectiles psim) \<and> returnsRemove Projectile_update ?dt (heap pw) a then 1 else 0)"
    and hp: "\<forall>a. heap w' a = (if a \<in> set (projectiles psim) then afterTick Projectile_update Projectile_dispose ?dt (heap pw) a else heap pw a)"
    by blast
  note st = tick_store[OF hp]
  have gone: "\<forall>a\<in>set (projectiles psim). returnsRemove Projectile_update ?dt (heap pw) a \<longrightarrow>
            Projectile.mesh (heap w' a) = None \<and> ring (heap w' a) = None \<and>
            trajectoryLine (heap w' a) = None"
    using hp by (auto simp add: afterTick_def returnsRemove_def Projectile_dispose_clears split: sum.splits)
  have u: "PhysicsSimulation_update deltaTime (psim, pw) = Inr (psim\<lparr>projectiles := objs'\<rparr>, w')"
    by (simp add: PhysicsSimulation_update_def Let_def r)
  show "\<exists>psim' pw'. PhysicsSimulation_update deltaTime (psim, pw) = Inr (psim', pw') \<and>
       projectiles psim' = filter (\<lambda>a. \<not> returnsRemove Projectile_update ?dt (heap pw) a) (projectiles psim) \<and>
       PhysicsSimulation_count psim' =
         PhysicsSimulation_count psim -
         card {a \<in> set (projectiles psim). returnsRemove Projectile_update ?dt (heap pw) a} \<and>
       (\<forall>a. count_list (disposeCalls pw') a =
              count_list (disposeCalls pw) a +
              (if a \<in> set (projectiles psim) \<and> returnsRemove Projectile_update ?dt (heap pw) a then 1 else 0)) \<and>
       (\<forall>a\<in>set (projectiles psim). \<forall>st p'.
            Projectile_update ?dt (heap pw a) = Inr (st, p') \<longrightarrow>
            heap pw' a = (if st = ''remove'' then Projectile_dispose p' else p')) \<and>
       (\<forall>a. a \<notin> set (projectiles psim) \<longrightarrow> heap pw' a = heap pw a) \<and>
       (\<forall>a\<in>set (projectiles psim). returnsRemove Projectile_update ?dt (heap pw) a \<longrightarrow>
            Projectile.mesh (heap pw' a) = None \<and> ring (heap pw' a) = None \<and>
            trajectoryLine (heap pw' a) = None)"
    unfolding u using rest st gone
    by (intro exI[of _ "psim\<lparr>projectiles := objs'\<rparr>"] exI[of _ w'])
       (simp add: PhysicsSimulation_count_def)
qed

lemma kin_eval:
  "map_sum id (\<lambda>(sim', w'). (motionObjects sim', KinematicsSimulation_count sim', disposeCalls w',
       mesh (heap w' 0), mesh (heap w' 1), mesh (heap w' 2), elapsedTime (heap w' 0)))
     (KinematicsSimulation_update (1 / 4) (kin_sim, kin_world)) =
   Inr ([0, 2], 2, [1], Some (Vec 0 (1 / 4) 0), None, Some (Vec 0 1 0), 3 / 4)"
  by (simp add: kin_sim_def kin_world_def KinematicsSimulation_update_def
        KinematicsSimulation_count_def ball_flying_def ball_in_flight_def scene_defs linear_defs
        dispose_def)

lemma shot_eval:
  "map_sum id (\<lambda>(sim', w'). (projectiles sim', PhysicsSimulation_count sim', disposeCalls w',
       Projectile.mesh (heap w' 0), Projectile.mesh (heap w' 1) \<noteq> None, hasLanded (heap w' 1)))
     (PhysicsSimulation_update 2 (shot_sim, shot_world)) = Inr ([1], 1, [0], None, True, True)"
  by (simp add: shot_sim_def shot_world_def PhysicsSimulation_update_def
        PhysicsSimulation_count_def shot_on_ground_def landed_shot_def shot_defs
        Projectile_dispose_def)

text \<open>
  Three motion objects of which the second is flagged for removal, and two projectiles
  of which the first has been on the ground for two seconds. After the tick the removed
  entities have no mesh left and the survivors keep theirs.
\<close>

theorem removal_safety_witness:
  "distinct (motionObjects kin_sim) \<and>
   \<not> isl (update (1 / 4 * KinematicsSimulation.timeScale kin_sim) (heap kin_world 0)) \<and>
   \<not> isl (update (1 / 4 * KinematicsSimulation.timeScale kin_sim) (heap kin_world 1)) \<and>
   \<not> isl (update (1 / 4 * KinematicsSimulation.timeScale kin_sim) (heap kin_world 2)) \<and>
   returnsRemove update (1 / 4 * KinematicsSimulation.timeScale kin_sim) (heap kin_world) 1 \<and>
   mesh (heap kin_world 1) = Some (Vec 0 1 0) \<and>
   (\<exists>sim' w'. KinematicsSimulation_update (1 / 4) (kin_sim, kin_world) = Inr (sim', w') \<and>
      mesh (heap w' 1) = None) \<and>
   map_sum id (\<lambda>(sim', w'). (motionObjects sim', KinematicsSimulation_count sim', disposeCalls w',
       mesh (heap w' 0), mesh (heap w' 1), mesh (heap w' 2), elapsedTime (heap w' 0)))
     (KinematicsSimulation_update (1 / 4) (kin_sim, kin_world)) =
   Inr ([0, 2], 2, [1], Some (Vec 0 (1 / 4) 0), None, Some (Vec 0 1 0), 3 / 4) \<and>
   distinct (projectiles shot_sim) \<and>
   \<not> isl (Projectile_update (2 * PhysicsSimulation.timeScale shot_sim) (heap shot_world 0)) \<and>
   \<not> isl (Projectile_update (2 * PhysicsSimulation.timeScale shot_sim) (heap shot_world 1)) \<and>
   returnsRemove Projectile_update (2 * PhysicsSimulation.timeScale shot_sim) (heap shot_world) 0 \<and>
   Projectile.mesh (heap shot_world 0) \<noteq> None \<and>
   (\<exists>psim' pw'. PhysicsSimulation_update 2 (shot_sim, shot_world) = Inr (psim', pw') \<and>
      Projectile.mesh (heap pw' 0) = None) \<and>
   map_sum id (\<lambda>(sim', w'). (projectiles sim', PhysicsSimulation_count sim', disposeCalls w',
       Projectile.mesh (heap w' 0), Projectile.mesh (heap w' 1) \<noteq> None, hasLanded (heap w' 1)))
     (PhysicsSimulation_update 2 (shot_sim, shot_world)) = Inr ([1], 1, [0], None, True, True)"
proof -
  have k: "distinct (motionObjects kin_sim)"
      "\<not> isl (update (1 / 4 * KinematicsSimulation.timeScale kin_sim) (heap kin_world 0))"
      "\<not> isl (update (1 / 4 * KinematicsSimulation.timeScale kin_sim) (heap kin_world 1))"
      "\<not> isl (update (1 / 4 * KinematicsSimulation.timeScale kin_sim) (heap kin_world 2))"
      "returnsRemove update (1 / 4 * KinematicsSimulation.timeScale kin_sim) (heap kin_world) 1"
      "mesh (heap kin_world 1) = Some (Vec 0 1 0)"
    by (simp_all add: kin_sim_def kin_world_def ball_flying_def ball_in_flight_def scene_defs
          linear_defs returnsRemove_def)
  have s: "distinct (projectiles shot_sim)"
      "\<not> isl (Projectile_update (2 * PhysicsSimulation.timeScale shot_sim) (heap shot_world 0))"
      "\<not> isl (Projectile_update (2 * PhysicsSimulation.timeScale shot_sim) (heap shot_world 1))"
      "returnsRemove Projectile_update (2 * PhysicsSimulation.timeScale shot_sim) (heap shot_world) 0"
      "Projectile.mesh (heap shot_world 0) \<noteq> None"
    by (simp_all add: shot_sim_def shot_world_def shot_on_ground_def landed_shot_def shot_defs
          returnsRemove_def)
  have mk: "set (motionObjects kin_sim) = {0, 1, 2}" and ms: "set (projectiles shot_sim) = {0, 1}"
    by (auto simp add: kin_sim_def shot_sim_def)
  have hk: "distinct (motionObjects kin_sim) \<and>
    (\<forall>a\<in>set (motionObjects kin_sim).
        \<not> isl (update (1 / 4 * KinematicsSimulation.timeScale kin_sim) (heap kin_world a)))"
    using k by (simp add: mk)
  have hs: "distinct (projectiles shot_sim) \<and>
    (\<forall>a\<in>set (projectiles shot_sim).
        \<not> isl (Projectile_update (2 * PhysicsSimulation.timeScale shot_sim) (heap shot_world a)))"
    using s by (simp add: ms)
  note r = removal_safety [of kin_sim "1 / 4" kin_world shot_sim shot_world]
    removal_safety [of kin_sim 2 kin_world shot_sim shot_world]
  from r(1) hk obtain sim' w' where
    e1: "KinematicsSimulation_update (1 / 4) (kin_sim, kin_world) = Inr (sim', w')"
    and g1: "\<forall>a\<in>set (motionObjects kin_sim).
            returnsRemove update (1 / 4 * KinematicsSimulation.timeScale kin_sim) (heap kin_world) a \<longrightarrow>
            mesh (heap w' a) = None \<and> trailLine (heap w' a) = None"
    by blast
  from g1 k(5) have m1: "mesh (heap w' 1) = None"
    by (simp add: mk)
  from r(2) hs obtain psim' pw' where
    e2: "PhysicsSimulation_update 2 (shot_sim, shot_world) = Inr (psim', pw')"
    and g2: "\<forall>a\<in>set (projectiles shot_sim).
            returnsRemove Projectile_update (2 * PhysicsSimulation.timeScale shot_sim) (heap shot_world) a \<longrightarrow>
            Projectile.mesh (heap pw' a) = None \<and> ring (heap pw' a) = None \<and>
            trajectoryLine (heap pw' a) = None"
    by blast
  from g2 s(4) have m2: "Projectile.mesh (heap pw' 0) = None"
    by (simp add: ms)
  from e1 m1
  have x1: "\<exists>sim' w'. KinematicsSimulation_update (1 / 4) (kin_sim, kin_world) = Inr (sim', w') \<and>
      mesh (heap w' 1) = None"
    by blast
  from e2 m2
  have x2: "\<exists>psim' pw'. PhysicsSimulation_update 2 (shot_sim, shot_world) = Inr (psim', pw') \<and>
      Projectile.mesh (heap pw' 0) = None"
    by blast
  from k x1 kin_eval s x2 shot_eval show ?thesis
    by (intro conjI)
qed

section \<open>A frozen orchestrator\<close>

lemmas circ_defs = orbiter_def MotionObject_new_def no_params_def Vec_def launch_def update_def
  dispatch_def updateCircular_def syncMesh_def updateTrail_def computeStats_def clearTrail_def
  Let_def

text \<open>
  C2, as stated, fails: with \<open>timeScale = 0\<close> every object is still updated, with
  \<open>dt = 0\<close>, and an active object is re-evaluated at its elapsed time. The freshly
  launched object in circular mode has velocity \<open>(0, 0, 0)\<close>; one frozen
  \<open>update\<close> of the orchestrator sets it to the tangential velocity \<open>(0, 0, 5)\<close>.
\<close>

theorem frozen_first_update_changes_velocity:
  "KinematicsSimulation.timeScale frozen_sim = 0 \<and>
   motionObjects frozen_sim = [0] \<and>
   isLaunched (heap orbit_world 0) \<and>
   velocity (heap orbit_world 0) = Vec 0 0 0 \<and>
   map_sum id (\<lambda>(sim', w'). velocity (heap w' 0))
     (KinematicsSimulation_update (1 / 60) (frozen_sim, orbit_world)) = Inr (Vec 0 0 5)"
  by (simp add: frozen_sim_def orbit_world_def KinematicsSimulation_update_def circ_defs)

subsection \<open>An update with \<open>dt = 0\<close> of a settled object\<close>

lemma decor_fields:
  "motionType (decor m a b c x) = motionType x"
  "position (decor m a b c x) = position x"
  "velocity (decor m a b c x) = velocity x"
  "acceleration (decor m a b c x) = acceleration x"
  "initialPosition (decor m a b c x) = initialPosition x"
  "initialVelocity (decor m a b c x) = initialVelocity x"
  "elapsedTime (decor m a b c x) = elapsedTime x"
  "gravity (decor m a b c x) = gravity x"
  "circularRadius (decor m a b c x) = circularRadius x"
  "angularVelocity (decor m a b c x) = angularVelocity x"
  "circularClockwise (decor m a b c x) = circularClockwise x"
  "circularCenter (decor m a b c x) = circularCenter x"
  "viewInWorldFrame (decor m a b c x) = viewInWorldFrame x"
  "dragMode (decor m a b c x) = dragMode x"
  "isStopped (decor m a b c x) = isStopped x"
  "isLaunched (decor m a b c x) = isLaunched x"
  "status (decor m a b c x) = status x"
  "mesh (decor m a b c x) = m"
  by (simp_all add: decor_def)

lemma groundContact_decor: "groundContact (decor m a b c x) = groundContact x"
  by (simp add: groundContact_def decor_def)

lemma atClosedForm_decor: "atClosedForm (decor m a b c x) = atClosedForm x"
  unfolding atClosedForm_def decor_fields ..

lemma settled_decor:
  "mesh x \<noteq> None \<Longrightarrow> settled (decor (Some p) a b c x) = settled x"
  unfolding settled_def decor_fields groundContact_decor atClosedForm_decor by simp

lemma Vec_eta: "Vec (vec_x p) (vec_y p) (vec_z p) = p"
  by (simp add: Vec_def)

lemma applyDrag_zero: "applyDrag 0 x = x"
  by (simp add: applyDrag_def Let_def)

lemma stepPosition_zero: "stepPosition 0 x = x"
  by (simp add: stepPosition_def Vec_eta)

lemma set_own:
  "x\<lparr>position := position x\<rparr> = x"
  "x\<lparr>position := position x, velocity := velocity x\<rparr> = x"
  "x\<lparr>velocity := velocity x\<rparr> = x"
  by simp_all

lemma updateLinear_zero:
  assumes "dragMode x = ''none'' \<longrightarrow>
           position x = Vec (vec_x (initialPosition x) + vec_x (initialVelocity x) * elapsedTime x)
                            (vec_y (initialPosition x) + vec_y (initialVelocity x) * elapsedTime x)
                            (vec_z (initialPosition x) + vec_z (initialVelocity x) * elapsedTime x)"
    and "\<not> groundContact x"
  shows "updateLinear 0 x = x"
proof -
  have "moveLinear 0 x = x"
  proof (cases "dragMode x = ''none''")
    case True
    with assms(1) have "moveLinear 0 x = x\<lparr>position := position x\<rparr>"
      unfolding moveLinear_def applyDrag_zero Let_def by simp
    then show ?thesis by simp
  next
    case False
    then show ?thesis
      unfolding moveLinear_def applyDrag_zero Let_def by (simp add: stepPosition_zero)
  qed
  then show ?thesis
    using assms(2) by (simp add: updateLinear_def handleGroundCollision_def)
qed

lemma updateAccelerated_zero:
  assumes "dragMode x = ''none'' \<longrightarrow>
           position x = Vec (vec_x (initialPosition x) + vec_x (initialVelocity x) * elapsedTime x + 0.5 * vec_x (acceleration x) * elapsedTime x * elapsedTime x)
                            (vec_y (initialPosition x) + vec_y (initialVelocity x) * elapsedTime x + 0.5 * vec_y (acceleration x) * elapsedTime x * elapsedTime x)
                            (vec_z (initialPosition x) + vec_z (initialVelocity x) * elapsedTime x + 0.5 * vec_z (acceleration x) * elapsedTime x * elapsedTime x) \<and>
           velocity x = Vec (vec_x (initialVelocity x) + vec_x (acceleration x) * elapsedTime x)
                            (vec_y (initialVelocity x) + vec_y (acceleration x) * elapsedTime x)
                            (vec_z (initialVelocity x) + vec_z (acceleration x) * elapsedTime x)"
    and "\<not> groundContact x"
  shows "updateAccelerated 0 x = x"
proof (cases "dragMode x = ''none''")
  case True
  with assms(1) have "updateAccelerated 0 x = handleGroundCollision (x\<lparr>position := position x, velocity := velocity x\<rparr>)"
    unfolding updateAccelerated_def applyDrag_zero Let_def by simp
  then show ?thesis
    using assms(2) by (simp add: handleGroundCollision_def)
next
  case False
  have "x\<lparr>velocity := Vec (vec_x (velocity x) + vec_x (acceleration x) * 0)
                          (vec_y (velocity x) + vec_y (acceleration x) * 0)
                          (vec_z (velocity x) + vec_z (acceleration x) * 0)\<rparr> = x"
    by (simp add: Vec_eta)
  with False have "updateAccelerated 0 x = handleGroundCollision x"
    unfolding updateAccelerated_def applyDrag_zero Let_def by (simp add: stepPosition_zero)
  then show ?thesis
    using assms(2) by (simp add: handleGroundCollision_def)
qed

lemma updateFreefall_zero:
  assumes "dragMode x = ''none'' \<longrightarrow>
           position x = Vec (vec_x (initialPosition x))
                            (vec_y (initialPosition x) - 0.5 * gravity x * elapsedTime x * elapsedTime x)
                            (vec_z (initialPosition x)) \<and>
           vec_y (velocity x) = - gravity x * elapsedTime x"
    and "\<not> groundContact x"
  shows "updateFreefall 0 x = x"
proof (cases "dragMode x = ''none''")
  case True
  with assms(1) have p: "Vec (vec_x (initialPosition x))
                            (vec_y (initialPosition x) - 0.5 * gravity x * elapsedTime x * elapsedTime x)
                            (vec_z (initialPosition x)) = position x"
    and v: "- gravity x * elapsedTime x = vec_y (velocity x)"
    by simp_all
  have "(velocity x)\<lparr>vec_y := vec_y (velocity x)\<rparr> = velocity x" by simp
  with True have "updateFreefall 0 x = handleGroundCollision (x\<lparr>position := position x, velocity := velocity x\<rparr>)"
    unfolding updateFreefall_def applyDrag_zero Let_def p v by simp
  then show ?thesis
    using assms(2) by (simp add: handleGroundCollision_def)
next
  case False
  have "x\<lparr>velocity := (velocity x)\<lparr>vec_y := vec_y (velocity x) + (- gravity x) * 0\<rparr>\<rparr> = x"
    by simp
  with False have "updateFreefall 0 x = handleGroundCollision x"
    unfolding updateFreefall_def applyDrag_zero Let_def by (simp add: stepPosition_zero)
  then show ?thesis
    using assms(2) by (simp add: handleGroundCollision_def)
qed

lemma updateProjectile_zero:
  assumes "dragMode x = ''none'' \<longrightarrow>
           position x = Vec (vec_x (initialPosition x) + vec_x (initialVelocity x) * elapsedTime x)
                            (vec_y (initialPosition x) + vec_y (initialVelocity x) * elapsedTime x - 0.5 * gravity x * elapsedTime x * elapsedTime x)
                            (vec_z (initialPosition x) + vec_z (initialVelocity x) * elapsedTime x) \<and>
           velocity x = Vec (vec_x (initialVelocity x))
                            (vec_y (initialVelocity x) - gravity x * elapsedTime x)
                            (vec_z (initialVelocity x))"
    and "\<not> groundContact x"
  shows "updateProjectile 0 x = x"
proof (cases "dragMode x = ''none''")
  case True
  with assms(1) have "updateProjectile 0 x = handleGroundCollision (x\<lparr>position := position x, velocity := velocity x\<rparr>)"
    unfolding updateProjectile_def applyDrag_zero Let_def by simp
  then show ?thesis
    using assms(2) by (simp add: handleGroundCollision_def)
next
  case False
  have "x\<lparr>velocity := (velocity x)\<lparr>vec_y := vec_y (velocity x) + (- gravity x) * 0\<rparr>\<rparr> = x"
    by simp
  with False have "updateProjectile 0 x = handleGroundCollision x"
    unfolding updateProjectile_def applyDrag_zero Let_def by (simp add: stepPosition_zero)
  then show ?thesis
    using assms(2) by (simp add: handleGroundCollision_def)
qed

lemma updateCircular_zero:
  assumes "motionType x = ''circular''" "atClosedForm x"
  shows "updateCircular 0 x = x"
proof -
  from assms have "updateCircular 0 x = x\<lparr>position := position x, velocity := velocity x\<rparr>"
    unfolding updateCircular_def atClosedForm_def Let_def by simp
  then show ?thesis by simp
qed

lemma updateRelative_zero:
  assumes "mesh x \<noteq> None" "viewInWorldFrame x \<longrightarrow> \<not> groundContact x"
  shows "\<exists>e'. updateRelative 0 x = Inr e' \<and> mesh e' \<noteq> None \<and> e'\<lparr>mesh := mesh x\<rparr> = x"
proof -
  have stay: "x\<lparr>position := Vec (vec_x (position x) + vec_x (vec_add (velocity x) (frameVelocity x)) * 0)
                              (vec_y (position x) + vec_y (vec_add (velocity x) (frameVelocity x)) * 0)
                              (vec_z (position x) + vec_z (vec_add (velocity x) (frameVelocity x)) * 0)\<rparr> = x"
    by (simp add: Vec_eta)
  from assms(1) obtain r where r: "mesh x = Some r" by auto
  show ?thesis
  proof (cases "viewInWorldFrame x")
    case True
    with assms(2) have "updateRelative 0 x = Inr x"
      unfolding updateRelative_def applyDrag_zero Let_def stay
      by (simp add: handleGroundCollision_def)
    with assms(1) show ?thesis by simp
  next
    case False
    then have "updateRelative 0 x =
       Inr (x\<lparr>mesh := Some (vec_sub (position x) (multiplyScalar (frameVelocity x) (elapsedTime x)))\<rparr>)"
      unfolding updateRelative_def applyDrag_zero Let_def stay by (simp add: r)
    then show ?thesis by simp
  qed
qed

lemma settled_zero_step:
  assumes "settled e" "isLaunched e" "\<not> isStopped e"
  shows "\<exists>e'. dispatch 0 e = Inr e' \<and> mesh e' \<noteq> None \<and> e'\<lparr>mesh := mesh e\<rparr> = e"
proof -
  from assms have m: "mesh e \<noteq> None"
    and core: "if motionType e = ''circular'' then atClosedForm e
       else if motionType e = ''relative'' then (viewInWorldFrame e \<longrightarrow> \<not> groundContact e)
       else (dragMode e = ''none'' \<longrightarrow> atClosedForm e) \<and> \<not> groundContact e"
    by (simp_all add: settled_def)
  have fixed: "dispatch 0 e = Inr e \<Longrightarrow> ?thesis"
    using m by simp
  consider (lin) "motionType e \<notin> {''accelerated'', ''freefall'', ''projectile'', ''circular'', ''relative''}"
    | (acc) "motionType e = ''accelerated''" | (ff) "motionType e = ''freefall''"
    | (proj) "motionType e = ''projectile''" | (circ) "motionType e = ''circular''"
    | (rel) "motionType e = ''relative''"
    by auto
  then show ?thesis
  proof cases
    case lin
    with core have "updateLinear 0 e = e"
      by (intro updateLinear_zero) (auto simp add: atClosedForm_def Let_def)
    with lin show ?thesis
      by (intro fixed) (simp add: dispatch_default)
  next
    case acc
    with core have "updateAccelerated 0 e = e"
      by (intro updateAccelerated_zero) (auto simp add: atClosedForm_def Let_def)
    with acc show ?thesis
      by (intro fixed) (simp add: dispatch_def)
  next
    case ff
    with core have "updateFreefall 0 e = e"
      by (intro updateFreefall_zero) (auto simp add: atClosedForm_def Let_def)
    with ff show ?thesis
      by (intro fixed) (simp add: dispatch_def)
  next
    case proj
    with core have "updateProjectile 0 e = e"
      by (intro updateProjectile_zero) (auto simp add: atClosedForm_def Let_def)
    with proj show ?thesis
      by (intro fixed) (simp add: dispatch_def)
  next
    case circ
    with core have "updateCircular 0 e = e"
      by (intro updateCircular_zero) auto
    with circ show ?thesis
      by (intro fixed) (simp add: dispatch_def)
  next
    case rel
    with core have "viewInWorldFrame e \<longrightarrow> \<not> groundContact e" by simp
    from updateRelative_zero[OF m this] rel show ?thesis
      by (simp add: dispatch_def)
  qed
qed

lemma settled_step:
  assumes "settled e"
  shows "\<exists>e'. update 0 e = Inr (status e, e') \<and> settled e' \<and> status e' = status e \<and>
           elapsedTime e' = elapsedTime e \<and> position e' = position e \<and> velocity e' = velocity e"
proof (cases "\<not> isLaunched e \<or> isStopped e")
  case True
  then show ?thesis
    using assms by (simp add: update_inactive)
next
  case False
  then have act: "isLaunched e" "\<not> isStopped e" by simp_all
  from assms act have me: "mesh e \<noteq> None" by (simp add: settled_def)
  from settled_zero_step[OF assms act] obtain e2 where d: "dispatch 0 e = Inr e2"
    and m2: "mesh e2 \<noteq> None" and eq: "e2\<lparr>mesh := mesh e\<rparr> = e"
    by blast
  have e0: "e\<lparr>elapsedTime := elapsedTime e + 0\<rparr> = e" by simp
  from m2 obtain r where r: "mesh e2 = Some r" by auto
  define z where "z = e2\<lparr>mesh := Some (position e2)\<rparr>"
  have s: "syncMesh e2 = Inr z"
    by (simp add: syncMesh_def r z_def)
  obtain a b c where f: "computeStats (updateTrail z) = z\<lparr>trailPoints := a, trailLine := b, stats := c\<rparr>"
    using after_sync_frame by blast
  define E where "E = z\<lparr>trailPoints := a, trailLine := b, stats := c\<rparr>"
  have u: "update 0 e = Inr (status E, E)"
    unfolding update_active[OF act] e0 d sum.case s f E_def ..
  have e2e: "e2 = e\<lparr>mesh := mesh e2\<rparr>"
  proof -
    have "e2 = (e2\<lparr>mesh := mesh e\<rparr>)\<lparr>mesh := mesh e2\<rparr>" by simp
    then show ?thesis unfolding eq .
  qed
  have pe: "position e2 = position e"
    by (subst e2e) simp
  have Ed: "E = decor (Some (position e)) a b c e"
    unfolding E_def z_def decor_def by (subst e2e) (simp add: pe)
  have "settled E"
    unfolding Ed settled_decor[OF me] by (rule assms)
  moreover have "status E = status e" "elapsedTime E = elapsedTime e" "position E = position e"
    "velocity E = velocity e"
    unfolding Ed by (simp_all add: decor_fields)
  ultimately show ?thesis
    unfolding u by simp
qed

subsection \<open>The states \<open>launch\<close> and \<open>update\<close> leave are settled\<close>

lemma applyDrag_frame: "applyDrag dt x = x\<lparr>velocity := velocity (applyDrag dt x)\<rparr>"
  by (simp add: applyDrag_def Let_def)

lemma stepPosition_frame: "stepPosition dt x = x\<lparr>position := position (stepPosition dt x)\<rparr>"
  by (simp add: stepPosition_def)

lemma handleGroundCollision_clear:
  "isStopped (handleGroundCollision y) \<or> \<not> groundContact (handleGroundCollision y)"
proof (cases "groundContact y")
  case False
  then show ?thesis by (simp add: handleGroundCollision_def)
next
  case True
  then have neg: "vec_y (velocity y) < 0" by (simp add: groundContact_def)
  have "0 < restitution y \<Longrightarrow> restitution y * vec_y (velocity y) < 0"
    using neg by (simp add: mult_pos_neg)
  with True show ?thesis
    by (auto simp add: handleGroundCollision_def groundContact_def Let_def)
qed

lemma handleGroundCollision_rebased:
  assumes "groundContact y" "\<not> isStopped (handleGroundCollision y)" "\<not> isStopped y"
  shows "initialPosition (handleGroundCollision y) = position (handleGroundCollision y) \<and>
         initialVelocity (handleGroundCollision y) = velocity (handleGroundCollision y) \<and>
         elapsedTime (handleGroundCollision y) = 0 \<and> bounceEnabled y \<and> restitution y > 0"
  using assms by (auto simp add: handleGroundCollision_def Let_def split: if_splits)

lemma handleGroundCollision_frame:
  "motionType (handleGroundCollision y) = motionType y"
  "dragMode (handleGroundCollision y) = dragMode y"
  "mesh (handleGroundCollision y) = mesh y"
  "isLaunched (handleGroundCollision y) = isLaunched y"
  "viewInWorldFrame (handleGroundCollision y) = viewInWorldFrame y"
  by (simp_all add: handleGroundCollision_def Let_def)

lemma rebased_closed:
  assumes "initialPosition z = position z" "initialVelocity z = velocity z" "elapsedTime z = 0"
    and "motionType z \<noteq> ''freefall''" "motionType z \<noteq> ''circular''"
  shows "atClosedForm z"
  using assms by (simp add: atClosedForm_def Let_def Vec_eta)

text \<open>The state each of the four ground-tested modes hands to the resolver.\<close>

lemma updateLinear_shape:
  "\<exists>p v. updateLinear dt x = handleGroundCollision (x\<lparr>position := p, velocity := v\<rparr>) \<and>
     (dragMode x = ''none'' \<longrightarrow> v = velocity x \<and>
        p = Vec (vec_x (initialPosition x) + vec_x (initialVelocity x) * elapsedTime x)
                (vec_y (initialPosition x) + vec_y (initialVelocity x) * elapsedTime x)
                (vec_z (initialPosition x) + vec_z (initialVelocity x) * elapsedTime x))"
proof (cases "dragMode x = ''none''")
  case True
  then have "updateLinear dt x = handleGroundCollision (x\<lparr>position :=
      Vec (vec_x (initialPosition x) + vec_x (initialVelocity x) * elapsedTime x)
                (vec_y (initialPosition x) + vec_y (initialVelocity x) * elapsedTime x)
                (vec_z (initialPosition x) + vec_z (initialVelocity x) * elapsedTime x), velocity := velocity x\<rparr>)"
    by (simp add: updateLinear_def moveLinear_none)
  with True show ?thesis by blast
next
  case False
  obtain v where a: "applyDrag dt x = x\<lparr>velocity := v\<rparr>"
    using applyDrag_frame[of dt x] by blast
  obtain p where s: "stepPosition dt (x\<lparr>velocity := v\<rparr>) = x\<lparr>velocity := v, position := p\<rparr>"
    using stepPosition_frame[of dt "x\<lparr>velocity := v\<rparr>"] by blast
  have "x\<lparr>velocity := v, position := p\<rparr> = x\<lparr>position := p, velocity := v\<rparr>" by simp
  with False a s have "updateLinear dt x = handleGroundCollision (x\<lparr>position := p, velocity := v\<rparr>)"
    unfolding updateLinear_def moveLinear_def Let_def by simp
  with False show ?thesis by blast
qed

lemma updateAccelerated_shape:
  "\<exists>p v. updateAccelerated dt x = handleGroundCollision (x\<lparr>position := p, velocity := v\<rparr>) \<and>
     (dragMode x = ''none'' \<longrightarrow>
        p = Vec (vec_x (initialPosition x) + vec_x (initialVelocity x) * elapsedTime x + 0.5 * vec_x (acceleration x) * elapsedTime x * elapsedTime x)
                (vec_y (initialPosition x) + vec_y (initialVelocity x) * elapsedTime x + 0.5 * vec_y (acceleration x) * elapsedTime x * elapsedTime x)
                (vec_z (initialPosition x) + vec_z (initialVelocity x) * elapsedTime x + 0.5 * vec_z (acceleration x) * elapsedTime x * elapsedTime x) \<and>
        v = Vec (vec_x (initialVelocity x) + vec_x (acceleration x) * elapsedTime x)
                (vec_y (initialVelocity x) + vec_y (acceleration x) * elapsedTime x)
                (vec_z (initialVelocity x) + vec_z (acceleration x) * elapsedTime x))"
proof (cases "dragMode x = ''none''")
  case True
  then show ?thesis
    unfolding updateAccelerated_def applyDrag_none[OF True] Let_def by (intro exI) simp
next
  case False
  obtain v where a: "applyDrag dt x = x\<lparr>velocity := v\<rparr>"
    using applyDrag_frame[of dt x] by blast
  define p where "p v' = position (stepPosition dt (x\<lparr>velocity := v'\<rparr>))" for v'
  have s: "stepPosition dt (x\<lparr>velocity := v'\<rparr>) = x\<lparr>velocity := v', position := p v'\<rparr>" for v'
    unfolding p_def by (rule stepPosition_frame)
  have sw: "x\<lparr>velocity := v', position := p'\<rparr> = x\<lparr>position := p', velocity := v'\<rparr>" for v' p' by simp
  from False have "\<exists>p v. updateAccelerated dt x = handleGroundCollision (x\<lparr>position := p, velocity := v\<rparr>)"
    unfolding updateAccelerated_def a Let_def by (simp add: s sw) blast
  with False show ?thesis by blast
qed

lemma updateFreefall_shape:
  "\<exists>p v. updateFreefall dt x = handleGroundCollision (x\<lparr>position := p, velocity := v\<rparr>) \<and>
     (dragMode x = ''none'' \<longrightarrow>
        p = Vec (vec_x (initialPosition x))
                (vec_y (initialPosition x) - 0.5 * gravity x * elapsedTime x * elapsedTime x)
                (vec_z (initialPosition x)) \<and>
        vec_y v = - gravity x * elapsedTime x)"
proof (cases "dragMode x = ''none''")
  case True
  then show ?thesis
    unfolding updateFreefall_def applyDrag_none[OF True] Let_def
    by (intro exI[of _ "Vec (vec_x (initialPosition x))
                (vec_y (initialPosition x) - 0.5 * gravity x * elapsedTime x * elapsedTime x)
                (vec_z (initialPosition x))"]
          exI[of _ "(velocity x)\<lparr>vec_y := - gravity x * elapsedTime x\<rparr>"]) simp
next
  case False
  obtain v where a: "applyDrag dt x = x\<lparr>velocity := v\<rparr>"
    using applyDrag_frame[of dt x] by blast
  define p where "p v' = position (stepPosition dt (x\<lparr>velocity := v'\<rparr>))" for v'
  have s: "stepPosition dt (x\<lparr>velocity := v'\<rparr>) = x\<lparr>velocity := v', position := p v'\<rparr>" for v'
    unfolding p_def by (rule stepPosition_frame)
  have sw: "x\<lparr>velocity := v', position := p'\<rparr> = x\<lparr>position := p', velocity := v'\<rparr>" for v' p' by simp
  from False have "\<exists>p v. updateFreefall dt x = handleGroundCollision (x\<lparr>position := p, velocity := v\<rparr>)"
    unfolding updateFreefall_def a Let_def by (simp add: s sw) blast
  with False show ?thesis by blast
qed

lemma updateProjectile_shape:
  "\<exists>p v. updateProjectile dt x = handleGroundCollision (x\<lparr>position := p, velocity := v\<rparr>) \<and>
     (dragMode x = ''none'' \<longrightarrow>
        p = Vec (vec_x (initialPosition x) + vec_x (initialVelocity x) * elapsedTime x)
                (vec_y (initialPosition x) + vec_y (initialVelocity x) * elapsedTime x - 0.5 * gravity x * elapsedTime x * elapsedTime x)
                (vec_z (initialPosition x) + vec_z (initialVelocity x) * elapsedTime x) \<and>
        v = Vec (vec_x (initialVelocity x))
                (vec_y (initialVelocity x) - gravity x * elapsedTime x)
                (vec_z (initialVelocity x)))"
proof (cases "dragMode x = ''none''")
  case True
  then show ?thesis
    unfolding updateProjectile_def applyDrag_none[OF True] Let_def by (intro exI) simp
next
  case False
  obtain v where a: "applyDrag dt x = x\<lparr>velocity := v\<rparr>"
    using applyDrag_frame[of dt x] by blast
  define p where "p v' = position (stepPosition dt (x\<lparr>velocity := v'\<rparr>))" for v'
  have s: "stepPosition dt (x\<lparr>velocity := v'\<rparr>) = x\<lparr>velocity := v', position := p v'\<rparr>" for v'
    unfolding p_def by (rule stepPosition_frame)
  have sw: "x\<lparr>velocity := v', position := p'\<rparr> = x\<lparr>position := p', velocity := v'\<rparr>" for v' p' by simp
  from False have "\<exists>p v. updateProjectile dt x = handleGroundCollision (x\<lparr>position := p, velocity := v\<rparr>)"
    unfolding updateProjectile_def a Let_def by (simp add: s sw) blast
  with False show ?thesis by blast
qed

lemma resolved_settled:
  assumes "isLaunched y" "\<not> isStopped y" "mesh y \<noteq> None"
    and "motionType y \<noteq> ''circular''" "motionType y \<noteq> ''relative''"
    and "dragMode y = ''none'' \<longrightarrow> atClosedForm y"
    and "motionType y = ''freefall'' \<and> dragMode y = ''none'' \<and> bounceEnabled y \<and> restitution y > 0
         \<longrightarrow> \<not> groundContact y"
  shows "settled (handleGroundCollision y)"
proof (cases "groundContact y")
  case False
  then have "handleGroundCollision y = y" by (rule handleGroundCollision_idle)
  with assms False show ?thesis by (simp add: settled_def)
next
  case True
  show ?thesis
  proof (cases "isStopped (handleGroundCollision y)")
    case True
    then show ?thesis by (simp add: settled_def)
  next
    case False
    from handleGroundCollision_rebased[OF True False assms(2)]
    have rb: "initialPosition (handleGroundCollision y) = position (handleGroundCollision y)"
      "initialVelocity (handleGroundCollision y) = velocity (handleGroundCollision y)"
      "elapsedTime (handleGroundCollision y) = 0" and bo: "bounceEnabled y" "restitution y > 0"
      by simp_all
    from handleGroundCollision_clear[of y] False
    have nc: "\<not> groundContact (handleGroundCollision y)" by simp
    have cf: "atClosedForm (handleGroundCollision y)" if "dragMode y = ''none''"
    proof -
      from that assms(7) bo True have "motionType y \<noteq> ''freefall''" by auto
      with assms(4) show ?thesis
        by (intro rebased_closed rb) (simp_all add: handleGroundCollision_frame)
    qed
    show ?thesis
      using assms(3,4,5) nc cf by (simp add: settled_def handleGroundCollision_frame)
  qed
qed

lemma updateCircular_settled:
  assumes "motionType x = ''circular''" "mesh x \<noteq> None"
  shows "settled (updateCircular dt x)"
proof -
  have "motionType (updateCircular dt x) = ''circular''" "mesh (updateCircular dt x) \<noteq> None"
    using assms by (simp_all add: updateCircular_def Let_def)
  moreover have "atClosedForm (updateCircular dt x)"
    using assms(1) by (simp add: updateCircular_def atClosedForm_def Let_def)
  ultimately show ?thesis by (simp add: settled_def)
qed

lemma updateRelative_settled:
  assumes "updateRelative dt x = Inr r" "motionType x = ''relative''" "mesh r \<noteq> None"
  shows "settled r"
proof -
  obtain v where a: "applyDrag dt x = x\<lparr>velocity := v\<rparr>"
    using applyDrag_frame[of dt x] by blast
  define y where "y = x\<lparr>velocity := v,
       position := Vec (vec_x (position x) + vec_x (vec_add v (frameVelocity x)) * dt)
                       (vec_y (position x) + vec_y (vec_add v (frameVelocity x)) * dt)
                       (vec_z (position x) + vec_z (vec_add v (frameVelocity x)) * dt)\<rparr>"
  show ?thesis
  proof (cases "viewInWorldFrame x")
    case True
    then have "updateRelative dt x = Inr (handleGroundCollision y)"
      unfolding updateRelative_def a Let_def by (simp add: y_def)
    with assms(1) have r: "r = handleGroundCollision y" by simp
    have "motionType r = ''relative''"
      unfolding r handleGroundCollision_frame using assms(2) by (simp add: y_def)
    with handleGroundCollision_clear[of y] assms(3) show ?thesis
      unfolding r by (auto simp add: settled_def)
  next
    case False
    with assms(1,2) have "motionType r = ''relative'' \<and> \<not> viewInWorldFrame r"
      unfolding updateRelative_def a Let_def by (auto split: option.splits)
    with assms(3) show ?thesis by (simp add: settled_def)
  qed
qed

lemma dispatch_settled:
  assumes d: "dispatch dt x = Inr e2" and m2: "mesh e2 \<noteq> None"
    and act: "isLaunched x" "\<not> isStopped x"
    and ff: "motionType x = ''freefall'' \<and> dragMode x = ''none'' \<and> bounceEnabled x \<and> restitution x > 0 \<longrightarrow>
         \<not> (vec_y (initialPosition x) - 0.5 * gravity x * elapsedTime x * elapsedTime x \<le> 0 \<and>
            - gravity x * elapsedTime x < 0)"
  shows "settled e2"
proof -
  have via: "settled e2"
    if sh: "e2 = handleGroundCollision (x\<lparr>position := p, velocity := v\<rparr>)"
      and nm: "motionType x \<noteq> ''circular''" "motionType x \<noteq> ''relative''"
      and cf: "dragMode x = ''none'' \<longrightarrow> atClosedForm (x\<lparr>position := p, velocity := v\<rparr>)"
      and gc: "motionType x = ''freefall'' \<and> dragMode x = ''none'' \<and> bounceEnabled x \<and> restitution x > 0
         \<longrightarrow> \<not> groundContact (x\<lparr>position := p, velocity := v\<rparr>)"
    for p v
  proof -
    from m2 have "mesh x \<noteq> None"
      unfolding sh handleGroundCollision_frame by simp
    then show ?thesis
      unfolding sh using act nm cf gc by (intro resolved_settled) simp_all
  qed
  consider (lin) "motionType x \<notin> {''accelerated'', ''freefall'', ''projectile'', ''circular'', ''relative''}"
    | (acc) "motionType x = ''accelerated''" | (fall) "motionType x = ''freefall''"
    | (proj) "motionType x = ''projectile''" | (circ) "motionType x = ''circular''"
    | (rel) "motionType x = ''relative''"
    by auto
  then show ?thesis
  proof cases
    case lin
    with d have e2: "e2 = updateLinear dt x" by (simp add: dispatch_default)
    from updateLinear_shape[of dt x] obtain p v where
      s: "updateLinear dt x = handleGroundCollision (x\<lparr>position := p, velocity := v\<rparr>)"
      and n: "dragMode x = ''none'' \<longrightarrow> v = velocity x \<and>
        p = Vec (vec_x (initialPosition x) + vec_x (initialVelocity x) * elapsedTime x)
                (vec_y (initialPosition x) + vec_y (initialVelocity x) * elapsedTime x)
                (vec_z (initialPosition x) + vec_z (initialVelocity x) * elapsedTime x)"
      by blast
    show ?thesis
      using lin n by (intro via[where p=p and v=v]) (auto simp add: e2 s atClosedForm_def Let_def)
  next
    case acc
    with d have e2: "e2 = updateAccelerated dt x" by (simp add: dispatch_def)
    from updateAccelerated_shape[of dt x] obtain p v where
      s: "updateAccelerated dt x = handleGroundCollision (x\<lparr>position := p, velocity := v\<rparr>)"
      and n: "dragMode x = ''none'' \<longrightarrow>
        p = Vec (vec_x (initialPosition x) + vec_x (initialVelocity x) * elapsedTime x + 0.5 * vec_x (acceleration x) * elapsedTime x * elapsedTime x)
                (vec_y (initialPosition x) + vec_y (initialVelocity x) * elapsedTime x + 0.5 * vec_y (acceleration x) * elapsedTime x * elapsedTime x)
                (vec_z (initialPosition x) + vec_z (initialVelocity x) * elapsedTime x + 0.5 * vec_z (acceleration x) * elapsedTime x * elapsedTime x) \<and>
        v = Vec (vec_x (initialVelocity x) + vec_x (acceleration x) * elapsedTime x)
                (vec_y (initialVelocity x) + vec_y (acceleration x) * elapsedTime x)
                (vec_z (initialVelocity x) + vec_z (acceleration x) * elapsedTime x)"
      by blast
    show ?thesis
      using acc n by (intro via[where p=p and v=v]) (auto simp add: e2 s atClosedForm_def Let_def)
  next
    case fall
    with d have e2: "e2 = updateFreefall dt x" by (simp add: dispatch_def)
    from updateFreefall_shape[of dt x] obtain p v where
      s: "updateFreefall dt x = handleGroundCollision (x\<lparr>position := p, velocity := v\<rparr>)"
      and n: "dragMode x = ''none'' \<longrightarrow>
        p = Vec (vec_x (initialPosition x))
                (vec_y (initialPosition x) - 0.5 * gravity x * elapsedTime x * elapsedTime x)
                (vec_z (initialPosition x)) \<and>
        vec_y v = - gravity x * elapsedTime x"
      by blast
    show ?thesis
      using fall n ff
      by (intro via[where p=p and v=v]) (auto simp add: e2 s atClosedForm_def groundContact_def Let_def Vec_def)
  next
    case proj
    with d have e2: "e2 = updateProjectile dt x" by (simp add: dispatch_def)
    from updateProjectile_shape[of dt x] obtain p v where
      s: "updateProjectile dt x = handleGroundCollision (x\<lparr>position := p, velocity := v\<rparr>)"
      and n: "dragMode x = ''none'' \<longrightarrow>
        p = Vec (vec_x (initialPosition x) + vec_x (initialVelocity x) * elapsedTime x)
                (vec_y (initialPosition x) + vec_y (initialVelocity x) * elapsedTime x - 0.5 * gravity x * elapsedTime x * elapsedTime x)
                (vec_z (initialPosition x) + vec_z (initialVelocity x) * elapsedTime x) \<and>
        v = Vec (vec_x (initialVelocity x))
                (vec_y (initialVelocity x) - gravity x * elapsedTime x)
                (vec_z (initialVelocity x))"
      by blast
    show ?thesis
      using proj n by (intro via[where p=p and v=v]) (auto simp add: e2 s atClosedForm_def Let_def)
  next
    case circ
    with d have e2: "e2 = updateCircular dt x" by (simp add: dispatch_def)
    from m2 have "mesh x \<noteq> None"
      unfolding e2 by (simp add: updateCircular_def Let_def)
    with circ show ?thesis
      unfolding e2 by (intro updateCircular_settled)
  next
    case rel
    with d have "updateRelative dt x = Inr e2" by (simp add: dispatch_def)
    from updateRelative_settled[OF this rel m2] show ?thesis .
  qed
qed

lemma update_settles:
  assumes u: "update dt x = Inr (st, x')"
    and ff: "motionType x = ''freefall'' \<and> dragMode x = ''none'' \<and> bounceEnabled x \<and> restitution x > 0 \<longrightarrow>
         \<not> (vec_y (initialPosition x) - 0.5 * gravity x * (elapsedTime x + dt) * (elapsedTime x + dt) \<le> 0 \<and>
            - gravity x * (elapsedTime x + dt) < 0)"
  shows "settled x'"
proof (cases "\<not> isLaunched x \<or> isStopped x")
  case True
  with u have "x' = x" by (simp add: update_inactive)
  with True show ?thesis by (auto simp add: settled_def)
next
  case False
  then have act: "isLaunched x" "\<not> isStopped x" by simp_all
  define x1 where "x1 = x\<lparr>elapsedTime := elapsedTime x + dt\<rparr>"
  from u obtain e2 z where d: "dispatch dt x1 = Inr e2" and s: "syncMesh e2 = Inr z"
    and x': "x' = computeStats (updateTrail z)"
    unfolding update_active[OF act] x1_def[symmetric]
    by (auto split: sum.splits)
  from s have m2: "mesh e2 \<noteq> None" and z: "z = e2\<lparr>mesh := Some (position e2)\<rparr>"
    by (auto simp add: syncMesh_def split: option.splits)
  have "settled e2"
    using d m2 act ff by (intro dispatch_settled[of dt x1]) (simp_all add: x1_def)
  moreover obtain a b c where "x' = z\<lparr>trailPoints := a, trailLine := b, stats := c\<rparr>"
    unfolding x' using after_sync_frame by blast
  then have "x' = decor (Some (position e2)) a b c e2"
    unfolding z decor_def by simp
  ultimately show ?thesis
    using settled_decor[OF m2] by simp
qed

lemma launch_settled:
  assumes "mesh e \<noteq> None" "motionType e \<noteq> ''circular''" "\<not> groundContact (launch e)"
  shows "settled (launch e)"
proof -
  have f: "mesh (launch e) = mesh e" "motionType (launch e) = motionType e"
    "initialPosition (launch e) = position (launch e)" "elapsedTime (launch e) = 0"
    using assms(2) by (simp_all add: launch_def Let_def)
  have v: "motionType e \<noteq> ''freefall'' \<Longrightarrow> initialVelocity (launch e) = velocity (launch e)"
    "motionType e = ''freefall'' \<Longrightarrow> vec_y (velocity (launch e)) = 0"
    using assms(2) by (simp_all add: launch_def Let_def Vec_def)
  have "atClosedForm (launch e)"
    using assms(2) v by (simp add: atClosedForm_def f Let_def Vec_eta)
  with assms show ?thesis
    by (simp add: settled_def f)
qed

lemma onLine_settled:
  assumes "onLine x" "\<not> groundContact x"
  shows "settled x"
  using assms by (simp add: onLine_def settled_def atClosedForm_def Let_def)

text \<open>
  The one exception of \<open>update_settles\<close> is met by the code: the dropped ball, after
  the frame in which it bounces, is active and not settled (its snapshot is re-based,
  its elapsed time 0, its velocity the rebound 6.86 upwards), and a further update
  with \<open>dt = 0\<close> sets that velocity to 0.
\<close>

lemmas fall_defs = dropped_ball_def MotionObject_new_def no_params_def Vec_def launch_def update_def
  dispatch_def updateFreefall_def applyDrag_def handleGroundCollision_def groundContact_def syncMesh_def
  updateTrail_def computeStats_def clearTrail_def Let_def

lemma bounced_freefall_not_settled:
  "map_sum id (\<lambda>e. (isLaunched e, isStopped e, elapsedTime e, velocity e, settled e))
     (updates [1] (launch dropped_ball)) = Inr (True, False, 0, Vec 0 (343 / 50) 0, False) \<and>
   map_sum id (\<lambda>e. (elapsedTime e, velocity e))
     (updates [1, 0] (launch dropped_ball)) = Inr (0, Vec 0 0 0)"
  by (simp add: fall_defs settled_def atClosedForm_def)

subsection \<open>Frozen ticks\<close>

lemma dispose_fields:
  "elapsedTime (dispose x) = elapsedTime x" "position (dispose x) = position x"
  "velocity (dispose x) = velocity x"
  by (cases "mesh x"; simp add: dispose_def clearTrail_def)+

lemma settled_tick:
  assumes "settled (h a)"
  shows "elapsedTime (afterTick update dispose 0 h a) = elapsedTime (h a)"
    "position (afterTick update dispose 0 h a) = position (h a)"
    "velocity (afterTick update dispose 0 h a) = velocity (h a)"
    "\<not> returnsRemove update 0 h a \<Longrightarrow> settled (afterTick update dispose 0 h a)"
    "\<not> isl (update 0 (h a))"
proof -
  from settled_step[OF assms] obtain e' where
    e': "update 0 (h a) = Inr (status (h a), e')" "settled e'"
      "elapsedTime e' = elapsedTime (h a)" "position e' = position (h a)" "velocity e' = velocity (h a)"
    by blast
  show "elapsedTime (afterTick update dispose 0 h a) = elapsedTime (h a)"
    "position (afterTick update dispose 0 h a) = position (h a)"
    "velocity (afterTick update dispose 0 h a) = velocity (h a)"
    "\<not> returnsRemove update 0 h a \<Longrightarrow> settled (afterTick update dispose 0 h a)"
    "\<not> isl (update 0 (h a))"
    using e' by (simp_all add: afterTick_def returnsRemove_def dispose_fields)
qed

lemma frozen_tick:
  assumes ts: "KinematicsSimulation.timeScale sim = 0" and dist: "distinct (motionObjects sim)"
    and st: "\<forall>a\<in>set (motionObjects sim). settled (heap w a)"
  shows "\<exists>sim' w'. KinematicsSimulation_update deltaTime (sim, w) = Inr (sim', w') \<and>
          KinematicsSimulation.timeScale sim' = 0 \<and> distinct (motionObjects sim') \<and>
          (\<forall>a\<in>set (motionObjects sim'). settled (heap w' a)) \<and>
          (\<forall>a. elapsedTime (heap w' a) = elapsedTime (heap w a) \<and>
               position (heap w' a) = position (heap w a) \<and>
               velocity (heap w' a) = velocity (heap w a))"
proof -
  let ?objs = "motionObjects sim"
  have ok: "\<forall>a\<in>set ?objs. \<not> isl (update 0 (heap w a))"
    using st settled_tick(5) by blast
  define w' where "w' = w\<lparr>heap := (\<lambda>a. if a \<in> set ?objs then afterTick update dispose 0 (heap w) a else heap w a),
            disposeCalls := disposeCalls w @ rev (filter (returnsRemove update 0 (heap w)) ?objs)\<rparr>"
  define objs' where "objs' = filter (\<lambda>a. \<not> returnsRemove update 0 (heap w) a) ?objs"
  have loop: "reverseLoop update dispose 0 (length ?objs) (?objs, w) = Inr (objs', w')"
    using reverseLoop_char[of "length ?objs" ?objs update 0 w dispose] dist ok
    by (simp add: w'_def objs'_def)
  have u: "KinematicsSimulation_update deltaTime (sim, w) = Inr (sim\<lparr>motionObjects := objs'\<rparr>, w')"
    by (simp add: KinematicsSimulation_update_def Let_def ts loop)
  have hp: "heap w' a = (if a \<in> set ?objs then afterTick update dispose 0 (heap w) a else heap w a)" for a
    by (simp add: w'_def)
  have keep: "\<forall>a\<in>set objs'. settled (heap w' a)"
    using st settled_tick(4) by (auto simp add: objs'_def hp)
  have same: "elapsedTime (heap w' a) = elapsedTime (heap w a) \<and>
               position (heap w' a) = position (heap w a) \<and>
               velocity (heap w' a) = velocity (heap w a)" for a
    using st settled_tick(1,2,3) by (auto simp add: hp)
  show ?thesis
    unfolding u using ts dist keep same by (simp add: objs'_def)
qed

text \<open>
  C2, amended. For every orchestrator whose \<open>timeScale\<close> is 0 and whose collection
  holds distinct entities that are all settled, any finite sequence of
  \<open>update(deltaTime)\<close> calls with arbitrary \<open>deltaTime\<close> values returns and leaves
  every entity's elapsed time, position and velocity unchanged. Settled is a condition
  on the fields: the entity is idle; or stopped; or active with a live mesh, and then
  in circular mode its position and velocity are those of the circle at its elapsed
  time; in relative mode no ground contact is pending when it is viewed in the world
  frame; in the linear, accelerated, freefall and projectile modes no ground contact
  is pending and, without drag, its position (and, where the mode sets it, its
  velocity) is the value of the mode's formula at its snapshot and elapsed time.
  \<open>launch\<close> leaves such a state in every mode but circular, and \<open>update\<close> leaves
  one in every mode, the re-basing bounce of a freefall object without drag apart.
\<close>

theorem frozen_keeps_settled:
  assumes "KinematicsSimulation.timeScale sim = 0" and "distinct (motionObjects sim)"
    and "\<forall>a\<in>set (motionObjects sim). settled (heap w a)"
  shows "\<exists>sim' w'. KinematicsSimulation_updates deltaTimes (sim, w) = Inr (sim', w') \<and>
          (\<forall>a. elapsedTime (heap w' a) = elapsedTime (heap w a) \<and>
               position (heap w' a) = position (heap w a) \<and>
               velocity (heap w' a) = velocity (heap w a))"
  using assms
proof (induction deltaTimes arbitrary: sim w)
  case Nil
  then show ?case by simp
next
  case (Cons deltaTime rest)
  from frozen_tick[OF Cons.prems, of deltaTime] obtain sim1 w1 where
    t: "KinematicsSimulation_update deltaTime (sim, w) = Inr (sim1, w1)"
      "KinematicsSimulation.timeScale sim1 = 0" "distinct (motionObjects sim1)"
      "\<forall>a\<in>set (motionObjects sim1). settled (heap w1 a)"
    and s1: "\<forall>a. elapsedTime (heap w1 a) = elapsedTime (heap w a) \<and>
               position (heap w1 a) = position (heap w a) \<and>
               velocity (heap w1 a) = velocity (heap w a)"
    by blast
  from Cons.IH[OF t(2,3,4)] obtain sim' w' where
    r: "KinematicsSimulation_updates rest (sim1, w1) = Inr (sim', w')"
    and s2: "\<forall>a. elapsedTime (heap w' a) = elapsedTime (heap w1 a) \<and>
               position (heap w' a) = position (heap w1 a) \<and>
               velocity (heap w' a) = velocity (heap w1 a)"
    by blast
  show ?case
    using t(1) r s1 s2 by simp
qed

lemma settled_scene:
  "settled ball_flying" "settled falling_ball" "settled (launch dragged_ball)" "settled orbiter_turning"
     apply (simp add: settled_def atClosedForm_def groundContact_def ball_flying_def ball_in_flight_def scene_defs linear_defs)
    apply (simp add: settled_def scene_defs Let_def)
   apply (simp add: settled_def atClosedForm_def groundContact_def dragged_ball_def scene_defs launch_def Let_def)
  apply (simp add: settled_def atClosedForm_def orbiter_turning_def circ_defs)
  done

text \<open>
  Two frozen ticks of an orchestrator holding the ball in flight, the idle ball, the
  launched ball with drag and the turning orbiter.
\<close>

theorem frozen_keeps_settled_witness:
  "KinematicsSimulation.timeScale frozen_four = 0 \<and>
   distinct (motionObjects frozen_four) \<and>
   settled (heap ball_world 0) \<and> settled (heap ball_world 1) \<and>
   settled (heap ball_world 2) \<and> settled (heap ball_world 3) \<and>
   isLaunched (heap ball_world 0) \<and> \<not> isStopped (heap ball_world 0) \<and>
   \<not> isLaunched (heap ball_world 1) \<and>
   isLaunched (heap ball_world 2) \<and> \<not> isStopped (heap ball_world 2) \<and>
   isLaunched (heap ball_world 3) \<and> \<not> isStopped (heap ball_world 3) \<and>
   (\<exists>sim' w'. KinematicsSimulation_updates [1 / 60, 5] (frozen_four, ball_world) = Inr (sim', w') \<and>
      elapsedTime (heap w' 0) = 1 / 2 \<and>
      position (heap w' 0) = Vec 0 (1 / 2) 0 \<and>
      velocity (heap w' 0) = Vec 0 (- 1) 0 \<and>
      elapsedTime (heap w' 1) = 0 \<and>
      position (heap w' 1) = Vec 0 1 0 \<and>
      velocity (heap w' 1) = Vec 0 (- 1) 0 \<and>
      elapsedTime (heap w' 2) = 0 \<and>
      position (heap w' 2) = Vec 0 1 0 \<and>
      velocity (heap w' 2) = Vec 1 0 0 \<and>
      elapsedTime (heap w' 3) = 1 / 2 \<and>
      position (heap w' 3) = Vec (5 * cos (1 / 2)) 1 (5 * sin (1 / 2)) \<and>
      velocity (heap w' 3) = Vec (- (5 * sin (1 / 2))) 0 (5 * cos (1 / 2)))"
proof -
  have t: "KinematicsSimulation.timeScale frozen_four = 0"
    and d: "distinct (motionObjects frozen_four)"
    by (simp_all add: frozen_four_def)
  have h: "heap ball_world 0 = ball_flying" "heap ball_world 1 = falling_ball"
      "heap ball_world 2 = launch dragged_ball" "heap ball_world 3 = orbiter_turning"
    by (simp_all add: ball_world_def)
  have st: "\<forall>a\<in>set (motionObjects frozen_four). settled (heap ball_world a)"
    using settled_scene by (simp add: frozen_four_def ball_world_def)
  have b0: "isLaunched ball_flying" "\<not> isStopped ball_flying" "elapsedTime ball_flying = 1 / 2"
      "position ball_flying = Vec 0 (1 / 2) 0" "velocity ball_flying = Vec 0 (- 1) 0"
    by (simp_all add: ball_flying_def ball_in_flight_def scene_defs linear_defs)
  have b1: "\<not> isLaunched falling_ball" "elapsedTime falling_ball = 0"
      "position falling_ball = Vec 0 1 0" "velocity falling_ball = Vec 0 (- 1) 0"
    by (simp_all add: scene_defs Let_def)
  have b2: "isLaunched (launch dragged_ball)" "\<not> isStopped (launch dragged_ball)"
      "elapsedTime (launch dragged_ball) = 0" "position (launch dragged_ball) = Vec 0 1 0"
      "velocity (launch dragged_ball) = Vec 1 0 0"
    by (simp_all add: dragged_ball_def scene_defs launch_def Let_def)
  have b3: "isLaunched orbiter_turning" "\<not> isStopped orbiter_turning"
      "elapsedTime orbiter_turning = 1 / 2"
      "position orbiter_turning = Vec (5 * cos (1 / 2)) 1 (5 * sin (1 / 2))"
      "velocity orbiter_turning = Vec (- (5 * sin (1 / 2))) 0 (5 * cos (1 / 2))"
    by (simp_all add: orbiter_turning_def circ_defs)
  from frozen_keeps_settled [OF t d st, of "[1 / 60, 5]"] obtain sim' w' where
    r: "KinematicsSimulation_updates [1 / 60, 5] (frozen_four, ball_world) = Inr (sim', w')"
    and k: "\<forall>a. elapsedTime (heap w' a) = elapsedTime (heap ball_world a) \<and>
               position (heap w' a) = position (heap ball_world a) \<and>
               velocity (heap w' a) = velocity (heap ball_world a)"
    by blast
  from spec[OF k, of 0] spec[OF k, of 1] spec[OF k, of 2] spec[OF k, of 3]
  have v: "elapsedTime (heap w' 0) = 1 / 2 \<and>
      position (heap w' 0) = Vec 0 (1 / 2) 0 \<and>
      velocity (heap w' 0) = Vec 0 (- 1) 0 \<and>
      elapsedTime (heap w' 1) = 0 \<and>
      position (heap w' 1) = Vec 0 1 0 \<and>
      velocity (heap w' 1) = Vec 0 (- 1) 0 \<and>
      elapsedTime (heap w' 2) = 0 \<and>
      position (heap w' 2) = Vec 0 1 0 \<and>
      velocity (heap w' 2) = Vec 1 0 0 \<and>
      elapsedTime (heap w' 3) = 1 / 2 \<and>
      position (heap w' 3) = Vec (5 * cos (1 / 2)) 1 (5 * sin (1 / 2)) \<and>
      velocity (heap w' 3) = Vec (- (5 * sin (1 / 2))) 0 (5 * cos (1 / 2))"
    by (simp only: h b0 b1 b2 b3 simp_thms)
  have e: "\<exists>sim' w'. KinematicsSimulation_updates [1 / 60, 5] (frozen_four, ball_world) = Inr (sim', w') \<and>
      elapsedTime (heap w' 0) = 1 / 2 \<and>
      position (heap w' 0) = Vec 0 (1 / 2) 0 \<and>
      velocity (heap w' 0) = Vec 0 (- 1) 0 \<and>
      elapsedTime (heap w' 1) = 0 \<and>
      position (heap w' 1) = Vec 0 1 0 \<and>
      velocity (heap w' 1) = Vec 0 (- 1) 0 \<and>
      elapsedTime (heap w' 2) = 0 \<and>
      position (heap w' 2) = Vec 0 1 0 \<and>
      velocity (heap w' 2) = Vec 1 0 0 \<and>
      elapsedTime (heap w' 3) = 1 / 2 \<and>
      position (heap w' 3) = Vec (5 * cos (1 / 2)) 1 (5 * sin (1 / 2)) \<and>
      velocity (heap w' 3) = Vec (- (5 * sin (1 / 2))) 0 (5 * cos (1 / 2))"
    using r v by blast
  have sc: "settled (heap ball_world 0)" "settled (heap ball_world 1)"
      "settled (heap ball_world 2)" "settled (heap ball_world 3)"
    by (simp_all only: h settled_scene)
  have fl: "isLaunched (heap ball_world 0)" "\<not> isStopped (heap ball_world 0)"
      "\<not> isLaunched (heap ball_world 1)"
      "isLaunched (heap ball_world 2)" "\<not> isStopped (heap ball_world 2)"
      "isLaunched (heap ball_world 3)" "\<not> isStopped (heap ball_world 3)"
    by (simp_all only: h b0 b1 b2 b3 simp_thms)
  from t d sc fl e show ?thesis
    by (intro conjI)
qed

end
